theory Spec2Isabelle
  imports Main "HOL-Library.AList"
begin

section \<open>Constants and string helpers\<close>

text \<open>The header and content-type constants of the package (object node file and
  directory node file).\<close>

definition ManifestHeader :: string where
  "ManifestHeader = ''X-Object-Manifest''"

definition ObjectMetaHeader :: string where
  "ObjectMetaHeader = ''X-Object-Meta-''"

definition ObjectSymlinkHeader :: string where
  "ObjectSymlinkHeader = ObjectMetaHeader @ ''Symlink-Target''"

definition ObjectSizeHeader :: string where
  "ObjectSizeHeader = ObjectMetaHeader @ ''Crypto-Origin-Size''"

definition ObjectNonceHeader :: string where
  "ObjectNonceHeader = ObjectMetaHeader @ ''Crypto-Nonce''"

definition DirContentType :: string where
  "DirContentType = ''application/directory''"

definition ObjContentType :: string where
  "ObjContentType = ''application/octet-stream''"

definition LinkContentType :: string where
  "LinkContentType = ''application/link''"

text \<open>Go's \<^verbatim>\<open>strings.HasPrefix\<close>, \<^verbatim>\<open>HasSuffix\<close>, \<^verbatim>\<open>TrimPrefix\<close> and
  \<^verbatim>\<open>TrimSuffix\<close> on byte strings.\<close>

definition HasPrefix :: "string \<Rightarrow> string \<Rightarrow> bool" where
  "HasPrefix s p = (take (length p) s = p)"

definition HasSuffix :: "string \<Rightarrow> string \<Rightarrow> bool" where
  "HasSuffix s suf = (length suf \<le> length s \<and> drop (length s - length suf) s = suf)"

definition TrimPrefix :: "string \<Rightarrow> string \<Rightarrow> string" where
  "TrimPrefix s p = (if HasPrefix s p then drop (length p) s else s)"

definition TrimSuffix :: "string \<Rightarrow> string \<Rightarrow> string" where
  "TrimSuffix s suf = (if HasSuffix s suf then take (length s - length suf) s else s)"

text \<open>\<^verbatim>\<open>%d\<close> of \<^verbatim>\<open>fmt.Sprintf\<close>: the decimal digits of an integer.\<close>

function digits :: "nat \<Rightarrow> string" where
  "digits n = (if n < 10 then [char_of (48 + n)]
               else digits (n div 10) @ [char_of (48 + n mod 10)])"
  by pat_completeness auto
termination
  by (relation "measure id") auto

declare digits.simps [simp del]

definition itoa :: "int \<Rightarrow> string" where
  "itoa i = (if i < 0 then CHR ''-'' # digits (nat (- i)) else digits (nat i))"

text \<open>\<^verbatim>\<open>SegmentPathRegex = regexp.MustCompile("^([^/]+)/(.*)$")\<close> and its
  \<^verbatim>\<open>Match\<close>. The pattern is anchored at both ends; the first group is the non-empty
  run of bytes before the first slash; the dot of the second group matches every byte
  but the line feed (the pattern sets no flag).\<close>

definition SegmentPathRegex_Match :: "string \<Rightarrow> bool" where
  "SegmentPathRegex_Match s =
     (let container = takeWhile (\<lambda>c. c \<noteq> CHR ''/'') s;
          rest = dropWhile (\<lambda>c. c \<noteq> CHR ''/'') s
      in container \<noteq> [] \<and> rest \<noteq> [] \<and> CHR 0x0A \<notin> set (tl rest))"

text \<open>\<^verbatim>\<open>FolderRegex = regexp.MustCompile("^.+/$")\<close>: a final slash after at least
  one byte, none of the bytes before it a line feed.\<close>

definition FolderRegex_Match :: "string \<Rightarrow> bool" where
  "FolderRegex_Match s =
     (2 \<le> length s \<and> last s = CHR ''/'' \<and> CHR 0x0A \<notin> set (butlast s))"

section \<open>Data model\<close>

type_synonym bytes = string

text \<open>\<^verbatim>\<open>swift.Headers\<close> is a \<^verbatim>\<open>map[string]string\<close>; reading a missing key gives
  the empty string.\<close>

type_synonym Headers = "(string \<times> string) list"

definition hget :: "Headers \<Rightarrow> string \<Rightarrow> string" where
  "hget h k = (case map_of h k of None \<Rightarrow> [] | Some v \<Rightarrow> v)"

text \<open>\<^verbatim>\<open>swift.Object\<close>, the fields the package reads, and the headers mapping that
  the spec's data model gives a store object (empty where the sources build one).
  \<^verbatim>\<open>Bytes\<close> is an \<^verbatim>\<open>int64\<close>; the model counts in \<open>int\<close>, and no property below
  comes near the bound. \<^verbatim>\<open>LastModified\<close> is held in seconds.\<close>

record swift_Object =
  so_Name :: string
  so_ContentType :: string
  so_Bytes :: int
  so_LastModified :: int
  so_Headers :: Headers

text \<open>The node structs. The container pointers \<^verbatim>\<open>c\<close> and \<^verbatim>\<open>cs\<close> are only ever
  read through \<^verbatim>\<open>.Name\<close>, so the fields hold the container names. A directory's
  \<^verbatim>\<open>so\<close> may be nil (\<^verbatim>\<open>Attr\<close> tests it). The mutex \<^verbatim>\<open>m\<close> of an object is
  the flag \<open>o_locked\<close>. The parent back-pointer \<^verbatim>\<open>p\<close> is never read and is left out.\<close>

record directory =
  d_apex :: bool
  d_name :: string
  d_path :: string
  d_so :: "swift_Object option"
  d_sh :: Headers
  d_c :: string
  d_cs :: string

record object =
  o_name :: string
  o_path :: string
  o_so :: swift_Object
  o_sh :: Headers
  o_c :: string
  o_cs :: string
  o_locked :: bool
  o_segmented :: bool
  o_writing :: bool

record symlink =
  l_name :: string
  l_path :: string
  l_so :: swift_Object
  l_sh :: Headers
  l_c :: string

datatype dirent_type = DT_Dir | DT_File | DT_Link | DT_Unknown

record Dirent =
  de_Name :: string
  de_Type :: dirent_type

text \<open>The \<^verbatim>\<open>Node\<close> interface. \<open>Directory\<close>, \<open>Object\<close> and \<open>Symlink\<close> are the dynamic
  types \<^verbatim>\<open>*Directory\<close>, \<^verbatim>\<open>*Object\<close> and \<^verbatim>\<open>*Symlink\<close>; \<open>OtherNode\<close> is any other
  implementation (a container-level node), known by its name and its direntry. A nil
  interface value is \<open>None\<close> of \<open>node option\<close>.\<close>

datatype node =
    Directory directory
  | Object object
  | Symlink symlink
  | OtherNode string Dirent

fun node_Name :: "node \<Rightarrow> string" where
  "node_Name (Directory d) = d_name d"
| "node_Name (Object ob) = o_name ob"
| "node_Name (Symlink l) = l_name l"
| "node_Name (OtherNode n e) = n"

fun Export :: "node \<Rightarrow> Dirent" where
  "Export (Directory d) = \<lparr>de_Name = d_name d, de_Type = DT_Dir\<rparr>"
| "Export (Object ob) = \<lparr>de_Name = o_name ob, de_Type = DT_File\<rparr>"
| "Export (Symlink l) = \<lparr>de_Name = l_name l, de_Type = DT_Link\<rparr>"
| "Export (OtherNode n e) = e"

section \<open>The directory cache and the change cache\<close>

text \<open>Modelled from the spec: the type \<^verbatim>\<open>Cache\<close> behind \<^verbatim>\<open>DirectoryCache\<close> is not
  among the sources. The spec (4.4) gives a two-level mapping
  \<open>(container, parentPath) \<rightarrow> (parentNode, {childName \<rightarrow> childNode})\<close>; the children
  are kept as an association list, in insertion order.\<close>

type_synonym cache_entry = "node option \<times> (string \<times> node) list"
type_synonym cache = "(string \<times> string) \<rightharpoonup> cache_entry"

text \<open>Modelled from the spec: \<^verbatim>\<open>Peek(container, path)\<close>, a non-loading existence
  check.\<close>

definition Cache_Peek :: "cache \<Rightarrow> string \<Rightarrow> string \<Rightarrow> bool" where
  "Cache_Peek ca container path = (ca (container, path) \<noteq> None)"

text \<open>Modelled from the spec: \<^verbatim>\<open>GetAll(container, path)\<close> returns the full entry or a
  miss.\<close>

definition Cache_GetAll :: "cache \<Rightarrow> string \<Rightarrow> string \<Rightarrow> cache_entry option" where
  "Cache_GetAll ca container path = ca (container, path)"

text \<open>Modelled from the spec: \<^verbatim>\<open>AddAll(container, path, parent, children)\<close>
  installs or replaces the entry.\<close>

definition Cache_AddAll ::
  "cache \<Rightarrow> string \<Rightarrow> string \<Rightarrow> node \<Rightarrow> (string \<times> node) list \<Rightarrow> cache" where
  "Cache_AddAll ca container path parent children =
     ca((container, path) \<mapsto> (Some parent, children))"

text \<open>Modelled from the spec: \<^verbatim>\<open>Get(container, path, name)\<close>, the single-child
  lookup; nil when the entry or the child is missing.\<close>

definition Cache_Get :: "cache \<Rightarrow> string \<Rightarrow> string \<Rightarrow> string \<Rightarrow> node option" where
  "Cache_Get ca container path name =
     (case ca (container, path) of
        None \<Rightarrow> None
      | Some (parent, children) \<Rightarrow> map_of children name)"

text \<open>Modelled from the spec: \<^verbatim>\<open>Set(container, path, name, child)\<close> inserts a child,
  creating the entry if absent (its parent node then stays unset) and keeping the parent
  of an entry that exists.\<close>

definition Cache_Set :: "cache \<Rightarrow> string \<Rightarrow> string \<Rightarrow> string \<Rightarrow> node \<Rightarrow> cache" where
  "Cache_Set ca container path name child =
     (case ca (container, path) of
        None \<Rightarrow> ca((container, path) \<mapsto> (None, [(name, child)]))
      | Some (parent, children) \<Rightarrow>
          ca((container, path) \<mapsto> (parent, AList.update name child children)))"

text \<open>Modelled from the spec: \<^verbatim>\<open>Delete(container, path, name)\<close> removes a single
  child.\<close>

definition Cache_Delete :: "cache \<Rightarrow> string \<Rightarrow> string \<Rightarrow> string \<Rightarrow> cache" where
  "Cache_Delete ca container path name =
     (case ca (container, path) of
        None \<Rightarrow> ca
      | Some (parent, children) \<Rightarrow>
          ca((container, path) \<mapsto> (parent, AList.delete name children)))"

text \<open>Modelled from the spec: \<^verbatim>\<open>DeleteAll(container, path)\<close> evicts the entire
  entry.\<close>

definition Cache_DeleteAll :: "cache \<Rightarrow> string \<Rightarrow> string \<Rightarrow> cache" where
  "Cache_DeleteAll ca container path = ca((container, path) := None)"

text \<open>Modelled from the spec: the type \<^verbatim>\<open>SimpleCache\<close> behind \<^verbatim>\<open>ChangeCache\<close> is
  not among the sources. The spec (4.4) has it track \<open>(container, path) \<rightarrow> Object\<close> for
  the objects with an open write handle.\<close>

type_synonym simple_cache = "(string \<times> string) \<rightharpoonup> object"

text \<open>Modelled from the spec: \<^verbatim>\<open>Exist(container, path)\<close> of the change cache, whether
  an object is registered there.\<close>

definition SimpleCache_Exist :: "simple_cache \<Rightarrow> string \<Rightarrow> string \<Rightarrow> bool" where
  "SimpleCache_Exist cc container path = (cc (container, path) \<noteq> None)"

text \<open>Modelled from the spec: \<^verbatim>\<open>Get(container, path)\<close> of the change cache, the
  registered object.\<close>

definition SimpleCache_Get :: "simple_cache \<Rightarrow> string \<Rightarrow> string \<Rightarrow> object option" where
  "SimpleCache_Get cc container path = cc (container, path)"

text \<open>Modelled from the spec: \<^verbatim>\<open>Add(container, path, object)\<close> of the change cache
  registers the object.\<close>

definition SimpleCache_Add :: "simple_cache \<Rightarrow> string \<Rightarrow> string \<Rightarrow> object \<Rightarrow> simple_cache" where
  "SimpleCache_Add cc container path ob = cc((container, path) \<mapsto> ob)"

text \<open>Modelled from the spec: \<^verbatim>\<open>Remove(container, path)\<close> of the change cache
  removes the registration.\<close>

definition SimpleCache_Remove :: "simple_cache \<Rightarrow> string \<Rightarrow> string \<Rightarrow> simple_cache" where
  "SimpleCache_Remove cc container path = cc((container, path) := None)"

section \<open>The object store and the process-wide state\<close>

text \<open>The requests the package sends to the object store through \<^verbatim>\<open>SwiftConnection\<close>
  and through the writers it opens there. \<open>ObjectHead\<close> is the call
  \<^verbatim>\<open>SwiftConnection.Object(container, path)\<close>; \<open>ObjectsAll\<close> carries the container, the
  delimiter and the prefix; \<open>WriterWrite\<close> and \<open>WriterClose\<close> are the \<^verbatim>\<open>Write\<close> and
  \<^verbatim>\<open>Close\<close> of a writer opened on (container, path); \<open>ReaderRead\<close> is a read through a
  reader opened on (container, path), from a position, of a number of bytes.\<close>

datatype call =
    ObjectPutBytes string string string
  | ObjectCreate string string string Headers
  | ObjectOpen string string
  | ObjectsAll string "char option" string
  | ObjectHead string string
  | ObjectUpdate string string Headers
  | ObjectMove string string string string
  | ManifestCopy string string string string
  | ObjectDelete string string
  | WriterWrite string string bytes
  | WriterClose string string
  | ReaderRead string string nat nat

text \<open>Errors: the three FUSE codes the sources return, an error passed through from the
  store (with the request that failed), the \<^verbatim>\<open>fmt.Errorf\<close> message, and a run-time
  panic or fatal error (a nil dereference, the unlock of a mutex that is not locked).\<close>

datatype error = ENOENT | ENOTSUP | EIO | Backend call | Errorf string | Panic

text \<open>The global variables of the package, the clock, and the object store. The store
  is external: the state keeps the \<open>trace\<close> of the requests sent so far, and the store's
  behaviour is a script indexed by the position of a request in the trace: whether
  the request fails, what a listing, a HEAD or an open for reading answers, how many
  bytes of a read arrive before it fails, and the nonce the crypto layer draws for a
  writer.\<close>

record world =
  SegmentSize :: nat
  Encryption :: bool
  ExtraAttr :: bool
  DirectoryCache :: cache
  ChangeCache :: simple_cache
  now :: int
  trace :: "call list"
  fails :: "nat \<Rightarrow> bool"
  listed :: "nat \<Rightarrow> swift_Object list"
  headed :: "nat \<Rightarrow> swift_Object \<times> Headers"
  body :: "nat \<Rightarrow> bytes"
  arrived :: "nat \<Rightarrow> nat"
  nonces :: "nat \<Rightarrow> string"

text \<open>Sending one request: it is appended to the trace; the result says whether the
  store accepted it.\<close>

definition request :: "call \<Rightarrow> world \<Rightarrow> bool \<times> world" where
  "request c w = (\<not> fails w (length (trace w)), w\<lparr>trace := trace w @ [c]\<rparr>)"

text \<open>A request whose only result is an error value.\<close>

definition perform :: "call \<Rightarrow> world \<Rightarrow> error option \<times> world" where
  "perform c w =
     (case request c w of (ok, w') \<Rightarrow> (if ok then None else Some (Backend c), w'))"

text \<open>Modelled from the spec: the loop of \<^verbatim>\<open>deleteSegments\<close> (not among the sources)
  that deletes the listed segments one by one; the first error ends it.\<close>

fun deleteEach :: "string \<Rightarrow> swift_Object list \<Rightarrow> world \<Rightarrow> error option \<times> world" where
  "deleteEach container [] w = (None, w)"
| "deleteEach container (s # ss) w =
     (case perform (ObjectDelete container (so_Name s)) w of
        (Some e, w') \<Rightarrow> (Some e, w')
      | (None, w') \<Rightarrow> deleteEach container ss w')"

text \<open>Modelled from the spec: \<^verbatim>\<open>deleteSegments(container, manifestHeader)\<close> is not
  among the sources. The spec has it enumerate and delete all segments whose names share
  the prefix, an error being fatal to the operation; by the data model the manifest
  header is \<open><segmentsContainer>/<prefix>\<close>.\<close>

definition deleteSegments :: "string \<Rightarrow> string \<Rightarrow> world \<Rightarrow> error option \<times> world" where
  "deleteSegments container manifestHeader w =
     (let prefix = TrimPrefix manifestHeader (container @ ''/'');
          k = length (trace w)
      in case perform (ObjectsAll container None prefix) w of
           (Some e, w') \<Rightarrow> (Some e, w')
         | (None, w') \<Rightarrow> deleteEach container (listed w k) w')"

section \<open>Directory node: Remove and Rename\<close>

definition removeDirectory ::
  "directory \<Rightarrow> directory \<Rightarrow> string \<Rightarrow> world \<Rightarrow> error option \<times> world" where
  "removeDirectory d directory name w =
     (case d_so directory of
        None \<Rightarrow> (Some Panic, w)
      | Some so \<Rightarrow>
          (let (_, w1) = perform (ObjectDelete (d_c directory) (so_Name so)) w;
               w2 = (if Cache_Peek (DirectoryCache w1) (d_c directory) (d_path directory)
                     then w1\<lparr>DirectoryCache :=
                            Cache_DeleteAll (DirectoryCache w1) (d_c directory) (d_path directory)\<rparr>
                     else w1);
               w3 = w2\<lparr>DirectoryCache :=
                          Cache_Delete (DirectoryCache w2) (d_c directory) (d_path d)
                            (d_name directory)\<rparr>
           in (None, w3)))"

definition removeObject ::
  "directory \<Rightarrow> object \<Rightarrow> string \<Rightarrow> string \<Rightarrow> world \<Rightarrow> error option \<times> world" where
  "removeObject d ob name path w =
     (let finish = (\<lambda>w1.
            let (_, w2) = perform (ObjectDelete (d_c d) path) w1
            in (None, w2\<lparr>DirectoryCache :=
                           Cache_Delete (DirectoryCache w2) (d_c d) (d_path d) name\<rparr>))
      in if o_segmented ob then
           (let k = length (trace w) in
            case perform (ObjectHead (d_c d) path) w of
              (Some e, w1) \<Rightarrow> (Some e, w1)
            | (None, w1) \<Rightarrow>
                (let h = snd (headed w k) in
                 if \<not> SegmentPathRegex_Match (hget h ManifestHeader)
                 then (Some (Errorf (''Invalid segment path for manifest '' @ name)), w1)
                 else case deleteSegments (d_cs d) (hget h ManifestHeader) w1 of
                        (Some e, w2) \<Rightarrow> (Some e, w2)
                      | (None, w2) \<Rightarrow> finish w2))
         else finish w)"

definition Remove :: "directory \<Rightarrow> string \<Rightarrow> world \<Rightarrow> error option \<times> world" where
  "Remove d name w =
     (let path = d_path d @ name;
          node = Cache_Get (DirectoryCache w) (d_c d) (d_path d) name
      in case node of
           Some (Directory directory) \<Rightarrow> removeDirectory d directory name w
         | Some (Object ob) \<Rightarrow> removeObject d ob name path w
         | _ \<Rightarrow> (Some ENOTSUP, w))"

definition moveObject ::
  "string \<Rightarrow> string \<Rightarrow> string \<Rightarrow> string \<Rightarrow> string \<Rightarrow> string \<Rightarrow> object \<Rightarrow> world
     \<Rightarrow> error option \<times> world" where
  "moveObject oldContainer oldPath oldName newContainer newPath newName ob w =
     (case perform (ObjectMove oldContainer (oldPath @ oldName)
                      newContainer (newPath @ newName)) w of
        (Some e, w1) \<Rightarrow> (Some e, w1)
      | (None, w1) \<Rightarrow>
          (let ob' = ob\<lparr>o_name := newName, o_path := newPath @ newName\<rparr>;
               c1 = Cache_Delete (DirectoryCache w1) oldContainer oldPath oldName;
               c2 = Cache_Set c1 newContainer newPath newName (Object ob')
           in (None, w1\<lparr>DirectoryCache := c2\<rparr>)))"

definition moveManifest ::
  "string \<Rightarrow> string \<Rightarrow> string \<Rightarrow> string \<Rightarrow> string \<Rightarrow> string \<Rightarrow> object \<Rightarrow> world
     \<Rightarrow> error option \<times> world" where
  "moveManifest oldContainer oldPath oldName newContainer newPath newName ob w =
     (case perform (ManifestCopy oldContainer (oldPath @ oldName)
                      newContainer (newPath @ newName)) w of
        (Some e, w1) \<Rightarrow> (Some e, w1)
      | (None, w1) \<Rightarrow>
          (case perform (ObjectDelete oldContainer (oldPath @ oldName)) w1 of
             (Some e, w2) \<Rightarrow> (Some e, w2)
           | (None, w2) \<Rightarrow>
               (let ob' = ob\<lparr>o_name := newName, o_path := newPath @ newName\<rparr>;
                    c1 = Cache_Delete (DirectoryCache w2) oldContainer oldPath oldName;
                    c2 = Cache_Set c1 newContainer newPath newName (Object ob')
                in (None, w2\<lparr>DirectoryCache := c2\<rparr>))))"

definition move ::
  "directory \<Rightarrow> string \<Rightarrow> string \<Rightarrow> string \<Rightarrow> string \<Rightarrow> string \<Rightarrow> string \<Rightarrow> world
     \<Rightarrow> error option \<times> world" where
  "move d oldContainer oldPath oldName newContainer newPath newName w =
     (case Cache_Get (DirectoryCache w) (d_c d) (d_path d) oldName of
        Some (Object oldObject) \<Rightarrow>
          (if o_segmented oldObject
           then moveManifest oldContainer oldPath oldName newContainer newPath newName
                  oldObject w
           else moveObject oldContainer oldPath oldName newContainer newPath newName
                  oldObject w)
      | _ \<Rightarrow> (Some ENOTSUP, w))"

definition Rename :: "directory \<Rightarrow> string \<Rightarrow> string \<Rightarrow> node \<Rightarrow> world \<Rightarrow> error option \<times> world" where
  "Rename d OldName NewName newDir w =
     (case newDir of
        Directory t \<Rightarrow> move d (d_c d) (d_path d) OldName (d_c t) (d_path t) NewName w
      | _ \<Rightarrow> (Some ENOTSUP, w))"

section \<open>Directory node: listing, Lookup and Mkdir\<close>

text \<open>Modelled from the spec: \<^verbatim>\<open>isSymlink(entry, parentPath)\<close> is not among the
  sources. The spec (4.7): the headers carry the symlink-target header or the content
  type equals the link type.\<close>

definition isSymlink :: "swift_Object \<Rightarrow> string \<Rightarrow> bool" where
  "isSymlink so path =
     (map_of (so_Headers so) ObjectSymlinkHeader \<noteq> None \<or> so_ContentType so = LinkContentType)"

text \<open>Modelled from the spec: \<^verbatim>\<open>isDirectory(entry, parentPath)\<close> is not among the
  sources. The spec (4.2, step 3): a real directory if marker or directory content type,
  a marker being an entry with the directory content type whose name ends with a slash;
  so an entry under the parent path that carries the directory content type is a real
  directory, with or without the final slash (\<^verbatim>\<open>ReadDirAll\<close> appends the slash to the
  path when it is missing, and \<^verbatim>\<open>Mkdir\<close> writes its marker without one).\<close>

definition isDirectory :: "swift_Object \<Rightarrow> string \<Rightarrow> bool" where
  "isDirectory so path =
     (HasPrefix (so_Name so) path \<and> so_ContentType so = DirContentType)"

text \<open>Modelled from the spec: \<^verbatim>\<open>isPseudoDirectory(entry, parentPath)\<close> is not among
  the sources. The spec (4.7): the entry name matches \<^verbatim>\<open>^.+/$\<close> under the parent path
  and has no explicit marker.\<close>

definition isPseudoDirectory :: "swift_Object \<Rightarrow> string \<Rightarrow> bool" where
  "isPseudoDirectory so path =
     (HasPrefix (so_Name so) path \<and> FolderRegex_Match (so_Name so)
      \<and> so_ContentType so \<noteq> DirContentType)"

text \<open>Modelled from the spec: \<^verbatim>\<open>isLargeObject(entry)\<close> is not among the sources.
  The spec (4.7): the header convention indicates a manifest.\<close>

definition isLargeObject :: "swift_Object \<Rightarrow> bool" where
  "isLargeObject so = (map_of (so_Headers so) ManifestHeader \<noteq> None)"

text \<open>Modelled from the spec: the \<^verbatim>\<open>Lister\<close> behind \<^verbatim>\<open>DirectoryLister\<close> is not among
  the sources. The spec (4.3) has \<^verbatim>\<open>AddTask\<close> enrich a node, typically by a HEAD
  request that fetches its full headers, and post the same node back, also when the
  request failed. The model runs the tasks one after the other, in the order of
  submission, when the listing loop is over.\<close>

text \<open>Modelled from the spec: the container and path at which the lister finds a
  node's object, and a node with the headers it fetched.\<close>

fun node_place :: "node \<Rightarrow> string \<times> string" where
  "node_place (Directory d) = (d_c d, d_path d)"
| "node_place (Object ob) = (o_c ob, o_path ob)"
| "node_place (Symlink l) = (l_c l, l_path l)"
| "node_place (OtherNode n e) = ([], n)"

fun node_headers :: "Headers \<Rightarrow> node \<Rightarrow> node" where
  "node_headers h (Directory d) = Directory (d\<lparr>d_sh := h\<rparr>)"
| "node_headers h (Object ob) = Object (ob\<lparr>o_sh := h\<rparr>)"
| "node_headers h (Symlink l) = Symlink (l\<lparr>l_sh := h\<rparr>)"
| "node_headers h (OtherNode n e) = OtherNode n e"

text \<open>Modelled from the spec: one task of the lister, a HEAD request whose headers the
  node takes over; the node is posted back unchanged when the request fails.\<close>

definition enrich :: "node \<Rightarrow> world \<Rightarrow> node \<times> world" where
  "enrich n w =
     (let k = length (trace w) in
      case perform (ObjectHead (fst (node_place n)) (snd (node_place n))) w of
        (Some e, w') \<Rightarrow> (n, w')
      | (None, w') \<Rightarrow> (node_headers (snd (headed w k)) n, w'))"

text \<open>Modelled from the spec: all tasks of one listing, in the order of
  submission.\<close>

fun enrichAll :: "node list \<Rightarrow> world \<Rightarrow> node list \<times> world" where
  "enrichAll [] w = ([], w)"
| "enrichAll (n # ns) w =
     (case enrich n w of (n', w') \<Rightarrow>
        (case enrichAll ns w' of (ns', w'') \<Rightarrow> (n' # ns', w'')))"

text \<open>The local variables of \<^verbatim>\<open>ReadDirAll\<close> that its loop updates: the set \<^verbatim>\<open>dirs\<close>
  of directory names seen so far, the direntries, the children map, and the nodes handed
  to the lister (\<^verbatim>\<open>count\<close> is their number).\<close>

record listing =
  dirs :: "string set"
  direntries :: "Dirent list"
  children :: "(string \<times> node) list"
  tasks :: "node list"

text \<open>What one round of the loop does with the child it built: hand it to the lister
  (\<^verbatim>\<open>AddTask\<close>, \<^verbatim>\<open>child = nil\<close>, \<^verbatim>\<open>count++\<close>), add it to the direntries and
  the children (label \<^verbatim>\<open>export\<close>), or neither.\<close>

datatype outcome = Enqueue node | Emit node | Skip

text \<open>Label \<^verbatim>\<open>finish\<close>: a child is handed to the lister when \<^verbatim>\<open>ExtraAttr\<close> is set.\<close>

definition finish :: "world \<Rightarrow> node \<Rightarrow> outcome" where
  "finish w child = (if ExtraAttr w then Enqueue child else Emit child)"

definition fileName_of :: "directory \<Rightarrow> swift_Object \<Rightarrow> string" where
  "fileName_of d so = TrimSuffix (TrimPrefix (so_Name so) (d_path d)) ''/''"

text \<open>The listed objects whose short name the loop records in \<^verbatim>\<open>dirs\<close>: those it
  takes for a real directory marker or for a pseudo-directory (a symlink is handled
  before both tests).\<close>

definition names_dir :: "directory \<Rightarrow> swift_Object \<Rightarrow> bool" where
  "names_dir d so = (\<not> isSymlink so (d_path d)
      \<and> (isDirectory so (d_path d) \<or> isPseudoDirectory so (d_path d)))"

text \<open>The body of the loop over the listed objects, up to the labels: the outcome for
  one object and the updated \<^verbatim>\<open>dirs\<close>.\<close>

definition classify ::
  "directory \<Rightarrow> world \<Rightarrow> string set \<Rightarrow> swift_Object \<Rightarrow> outcome \<times> string set" where
  "classify d w ds so =
     (let path = so_Name so;
          fileName = fileName_of d so
      in if isSymlink so (d_path d) then
           (Enqueue (Symlink \<lparr>l_name = fileName, l_path = path, l_so = so, l_sh = [],
                              l_c = d_c d\<rparr>), ds)
         else if isDirectory so (d_path d) then
           (finish w (Directory \<lparr>d_apex = False, d_name = fileName,
               d_path = (if \<not> HasSuffix (so_Name so) ''/'' then path @ ''/'' else path),
               d_so = Some so, d_sh = [], d_c = d_c d, d_cs = d_cs d\<rparr>),
            insert fileName ds)
         else if isPseudoDirectory so (d_path d) \<and> fileName \<notin> ds then
           (finish w (Directory \<lparr>d_apex = False, d_name = fileName, d_path = path,
               d_so = Some so, d_sh = [], d_c = d_c d, d_cs = d_cs d\<rparr>),
            insert fileName ds)
         else if \<not> HasSuffix (so_Name so) ''/'' then
           (let child = \<lparr>o_name = fileName, o_path = path, o_so = so, o_sh = [],
                         o_c = d_c d, o_cs = d_cs d, o_locked = False,
                         o_segmented = False, o_writing = False\<rparr>
            in case SimpleCache_Get (ChangeCache w) (d_c d) path of
                 Some live \<Rightarrow> (Emit (Object live), ds)
               | None \<Rightarrow>
                   if isLargeObject so then (Enqueue (Object child), ds)
                   else (finish w (Object child), ds))
         else (Skip, ds))"

definition fill :: "directory \<Rightarrow> world \<Rightarrow> listing \<Rightarrow> swift_Object \<Rightarrow> listing" where
  "fill d w st so =
     (case classify d w (dirs st) so of
        (Enqueue child, ds) \<Rightarrow> st\<lparr>dirs := ds, tasks := tasks st @ [child]\<rparr>
      | (Emit child, ds) \<Rightarrow>
          st\<lparr>dirs := ds, direntries := direntries st @ [Export child],
             children := AList.update (node_Name child) child (children st)\<rparr>
      | (Skip, ds) \<Rightarrow> st\<lparr>dirs := ds\<rparr>)"

definition listing_init :: listing where
  "listing_init = \<lparr>dirs = {}, direntries = [], children = [], tasks = []\<rparr>"

text \<open>The part of \<^verbatim>\<open>ReadDirAll\<close> that follows the fetch of the objects (from the
  comment \<^verbatim>\<open>// Fill cache\<close> on): the loop over the objects, the wait for the lister,
  whose nodes are appended to the direntries and put into the children, and the
  installation of the children in the cache.\<close>

definition fillCache ::
  "directory \<Rightarrow> world \<Rightarrow> swift_Object list \<Rightarrow> (error + Dirent list) \<times> world" where
  "fillCache d w1 objects =
     (let st = foldl (fill d w1) listing_init objects;
          (done, w2) = enrichAll (tasks st) w1;
          ents = direntries st @ map Export done;
          chn = foldl (\<lambda>ch task. AList.update (node_Name task) task ch)
                  (children st) done
      in (Inr ents,
          w2\<lparr>DirectoryCache :=
               Cache_AddAll (DirectoryCache w2) (d_c d) (d_path d) (Directory d) chn\<rparr>))"

definition ReadDirAll :: "directory \<Rightarrow> world \<Rightarrow> (error + Dirent list) \<times> world" where
  "ReadDirAll d w =
     (case Cache_GetAll (DirectoryCache w) (d_c d) (d_path d) of
        Some (parent, nodes) \<Rightarrow> (Inr (map (\<lambda>(n, node). Export node) nodes), w)
      | None \<Rightarrow>
          (let k = length (trace w) in
           case perform (ObjectsAll (d_c d) (Some CHR ''/'') (d_path d)) w of
             (Some e, w1) \<Rightarrow> (Inl e, w1)
           | (None, w1) \<Rightarrow> fillCache d w1 (listed w k)))"

definition Lookup :: "directory \<Rightarrow> string \<Rightarrow> world \<Rightarrow> (error + node) \<times> world" where
  "Lookup d name w =
     (let w1 = (if \<not> Cache_Peek (DirectoryCache w) (d_c d) (d_path d)
                then snd (ReadDirAll d w) else w)
      in case Cache_Get (DirectoryCache w1) (d_c d) (d_path d) name of
           Some (Directory n) \<Rightarrow> (Inr (Directory n), w1)
         | Some (Object n) \<Rightarrow> (Inr (Object n), w1)
         | Some (Symlink n) \<Rightarrow> (Inr (Symlink n), w1)
         | _ \<Rightarrow> (Inl ENOENT, w1))"

definition Mkdir :: "directory \<Rightarrow> string \<Rightarrow> world \<Rightarrow> (error + node) \<times> world" where
  "Mkdir d name w =
     (let absPath = d_path d @ name in
      case perform (ObjectPutBytes (d_c d) absPath DirContentType) w of
        (Some e, w1) \<Rightarrow> (Inl EIO, w1)
      | (None, w1) \<Rightarrow>
          (let node = Directory \<lparr>d_apex = False, d_name = name, d_path = absPath @ ''/'',
                 d_so = Some \<lparr>so_Name = absPath, so_ContentType = DirContentType,
                              so_Bytes = 0, so_LastModified = now w1, so_Headers = []\<rparr>,
                 d_sh = [], d_c = d_c d, d_cs = d_cs d\<rparr>
           in (Inr node,
               w1\<lparr>DirectoryCache :=
                    Cache_Set (DirectoryCache w1) (d_c d) (d_path d) name node\<rparr>)))"

section \<open>Object handle: Read, Write and Release\<close>

text \<open>The \<^verbatim>\<open>io.ReadSeeker\<close> and the \<^verbatim>\<open>io.WriteCloser\<close> a handle holds. A reader
  streams the content of the object at (container, path) it was opened on, from a
  position, and can be closed (it is an \<^verbatim>\<open>io.Closer\<close>); a writer streams into the
  object at (container, path) of the store.\<close>

record reader =
  r_container :: string
  r_path :: string
  r_data :: bytes
  r_pos :: nat
  r_closed :: bool

record writer =
  w_container :: string
  w_path :: string
  w_closed :: bool

text \<open>\<^verbatim>\<open>Seek(offset, 0)\<close> sets the position from the start. \<^verbatim>\<open>io.ReadFull\<close> into
  a buffer of \<open>n\<close> bytes is a read request to the store: when the store serves it, it
  reads \<open>n\<close> bytes, or fewer when the stream ends; when the request fails, only the
  bytes that arrived before the failure are read. It returns the bytes read, with the
  reader moved on; the error it also returns is of no use here, since \<^verbatim>\<open>Read\<close>
  discards it.\<close>

definition Seek :: "reader \<Rightarrow> nat \<Rightarrow> reader" where
  "Seek r off = r\<lparr>r_pos := off\<rparr>"

definition ReadFull :: "reader \<Rightarrow> nat \<Rightarrow> world \<Rightarrow> bytes \<times> reader \<times> world" where
  "ReadFull r n w =
     (let k = length (trace w);
          avail = take n (drop (r_pos r) (r_data r));
          (ok, w') = request (ReaderRead (r_container r) (r_path r) (r_pos r) n) w;
          got = (if ok then avail else take (arrived w k) avail)
      in (got, r\<lparr>r_pos := r_pos r + length got\<rparr>, w'))"

definition Writer_Write :: "writer \<Rightarrow> bytes \<Rightarrow> world \<Rightarrow> error option \<times> world" where
  "Writer_Write wr data w = perform (WriterWrite (w_container wr) (w_path wr) data) w"

definition Writer_Close :: "writer \<Rightarrow> world \<Rightarrow> writer \<times> world" where
  "Writer_Close wr w =
     (wr\<lparr>w_closed := True\<rparr>, snd (perform (WriterClose (w_container wr) (w_path wr)) w))"

text \<open>The struct \<^verbatim>\<open>ObjectHandle\<close>. The target is a pointer in the source; the handle of
  the model carries the object and the operations return it updated. \<^verbatim>\<open>uploaded\<close> is a
  \<^verbatim>\<open>uint64\<close>: its additions are taken modulo \<open>2 ^ 64\<close>. \<^verbatim>\<open>segmentID\<close> is a
  \<^verbatim>\<open>uint\<close> that only ever grows by one per segment; the model counts it in \<open>nat\<close>.\<close>

record ObjectHandle =
  fh_target :: object
  fh_rd :: "reader option"
  fh_wd :: "writer option"
  fh_create :: bool
  fh_truncated :: bool
  fh_nonce :: string
  fh_wroteSegment :: bool
  fh_segmentID :: nat
  fh_uploaded :: nat
  fh_segmentPrefix :: string
  fh_segmentPath :: string

text \<open>Modelled from the spec: \<^verbatim>\<open>newReader\<close> is not among the sources. The spec only
  says that a reader on the target is created on the first Read; the model opens the
  object at the target's container and path.\<close>

definition newReader :: "ObjectHandle \<Rightarrow> world \<Rightarrow> (error + reader) \<times> world" where
  "newReader fh w =
     (let k = length (trace w) in
      case perform (ObjectOpen (o_c (fh_target fh)) (o_path (fh_target fh))) w of
        (Some e, w') \<Rightarrow> (Inl e, w')
      | (None, w') \<Rightarrow>
          (Inr \<lparr>r_container = o_c (fh_target fh), r_path = o_path (fh_target fh),
                 r_data = body w k, r_pos = 0, r_closed = False\<rparr>, w'))"

text \<open>Modelled from the spec: \<^verbatim>\<open>newWriter(container, path, &nonce)\<close> is not among the
  sources. The spec (4.5) has it construct a backend writer, a streaming PUT into the
  path, the encryption wrapping producing a nonce that is stored in the handle.\<close>

definition newWriter ::
  "string \<Rightarrow> string \<Rightarrow> string \<Rightarrow> world \<Rightarrow> (error + writer \<times> string) \<times> world" where
  "newWriter container path nonce w =
     (let k = length (trace w) in
      case perform (ObjectCreate container path ObjContentType []) w of
        (Some e, w') \<Rightarrow> (Inl e, w')
      | (None, w') \<Rightarrow>
          (Inr (\<lparr>w_container = container, w_path = path, w_closed = False\<rparr>,
                if Encryption w then nonces w k else nonce), w'))"

text \<open>Modelled from the spec: \<^verbatim>\<open>segmentPath(prefix, id)\<close> is not among the sources.
  The spec has a deterministic mapping from (prefix, id) to a backend path, of the form
  \<open><segmentPrefix>/<segmentID>\<close>.\<close>

definition segmentPath :: "string \<Rightarrow> nat \<Rightarrow> string" where
  "segmentPath prefix sid = prefix @ ''/'' @ digits sid"

text \<open>Modelled from the spec: \<^verbatim>\<open>createManifest(target, container, segmentsPath, path)\<close>
  is not among the sources. The spec has it create a manifest at the path with the header
  \<open>X-Object-Manifest: segmentsPath\<close>. The source discards whatever it returns.\<close>

definition createManifest :: "object \<Rightarrow> string \<Rightarrow> string \<Rightarrow> string \<Rightarrow> world \<Rightarrow> world" where
  "createManifest ob container segmentsPath path w =
     snd (perform (ObjectCreate container path [] [(ManifestHeader, segmentsPath)]) w)"

text \<open>Modelled from the spec: \<^verbatim>\<open>initSegment\<close> is not among the sources. The spec (4.6)
  has it open the next segment (\<open>segmentID++\<close>), perform the first write of the data into
  the new segment, and update the uploaded byte count. The first component of the result
  is the new writer (none on an error), then the segment id, the uploaded count and the
  nonce, which the source passes by reference.\<close>

definition initSegment ::
  "string \<Rightarrow> string \<Rightarrow> nat \<Rightarrow> bytes \<Rightarrow> nat \<Rightarrow> string \<Rightarrow> world
     \<Rightarrow> (error + writer) \<times> nat \<times> nat \<times> string \<times> world" where
  "initSegment container prefix sid data up nonce w =
     (let sid' = sid + 1 in
      case newWriter container (segmentPath prefix sid') nonce w of
        (Inl e, w1) \<Rightarrow> (Inl e, sid', up, nonce, w1)
      | (Inr (wr, nonce'), w1) \<Rightarrow>
          (case Writer_Write wr data w1 of
             (Some e, w2) \<Rightarrow> (Inl e, sid', up, nonce', w2)
           | (None, w2) \<Rightarrow> (Inr wr, sid', length data mod 2 ^ 64, nonce', w2)))"

text \<open>Modelled from the spec: \<^verbatim>\<open>updateHeaders(target, nonce)\<close> is not among the
  sources. The spec (4.6) has it write back the nonce and origin-size headers for the
  object.\<close>

definition updateHeaders :: "object \<Rightarrow> string \<Rightarrow> world \<Rightarrow> error option \<times> world" where
  "updateHeaders ob nonce w =
     perform (ObjectUpdate (o_c ob) (o_path ob)
                [(ObjectSizeHeader, itoa (so_Bytes (o_so ob))), (ObjectNonceHeader, nonce)]) w"

definition Read ::
  "ObjectHandle \<Rightarrow> nat \<Rightarrow> nat \<Rightarrow> world \<Rightarrow> (error + bytes) \<times> ObjectHandle \<times> world" where
  "Read fh Offset Size w =
     (case (case fh_rd fh of None \<Rightarrow> newReader fh w | Some r \<Rightarrow> (Inr r, w)) of
        (Inl e, w1) \<Rightarrow> (Inl e, fh\<lparr>fh_rd := None\<rparr>, w1)
      | (Inr r, w1) \<Rightarrow>
          (let (got, r', w2) = ReadFull (Seek r Offset) Size w1
           in (Inr (got @ replicate (Size - length got) (CHR 0x00)),
               fh\<lparr>fh_rd := Some r'\<rparr>, w2)))"

definition truncate :: "ObjectHandle \<Rightarrow> world \<Rightarrow> error option \<times> ObjectHandle \<times> world" where
  "truncate fh w =
     (let t = fh_target fh in
      case (if o_segmented t
            then (case deleteSegments (o_cs t) (hget (o_sh t) ManifestHeader) w of
                    (Some e, w1) \<Rightarrow> (Some e, t, w1)
                  | (None, w1) \<Rightarrow>
                      (None, t\<lparr>o_sh := AList.delete ManifestHeader (o_sh t),
                                 o_segmented := False\<rparr>, w1))
            else (None, t, w)) of
        (Some e, t1, w1) \<Rightarrow> (Some e, fh\<lparr>fh_target := t1\<rparr>, w1)
      | (None, t1, w1) \<Rightarrow>
          (let t2 = t1\<lparr>o_so := (o_so t1)\<lparr>so_Bytes := 0\<rparr>\<rparr>;
               fh1 = fh\<lparr>fh_truncated := True, fh_target := t2\<rparr>
           in case newWriter (o_c t2) (so_Name (o_so t2)) (fh_nonce fh1) w1 of
                (Inl e, w2) \<Rightarrow> (Some e, fh1\<lparr>fh_wd := None\<rparr>, w2)
              | (Inr (wr, nonce'), w2) \<Rightarrow>
                  (None, fh1\<lparr>fh_wd := Some wr, fh_nonce := nonce'\<rparr>, w2)))"

definition moveToSegment ::
  "ObjectHandle \<Rightarrow> world \<Rightarrow> error option \<times> ObjectHandle \<times> world" where
  "moveToSegment fh w =
     (case fh_wd fh of
        None \<Rightarrow> (Some Panic, fh, w)
      | Some wr \<Rightarrow>
          (let (wr', w1) = Writer_Close wr w;
               t = fh_target fh;
               prefix = o_path t @ ''/'' @ itoa (now w1);
               fh1 = fh\<lparr>fh_wd := Some wr', fh_segmentPrefix := prefix,
                        fh_segmentPath := segmentPath prefix (fh_segmentID fh)\<rparr>
           in case perform (ObjectMove (o_c t) (o_path t) (o_cs t) (fh_segmentPath fh1)) w1 of
                (Some e, w2) \<Rightarrow> (Some e, fh1, w2)
              | (None, w2) \<Rightarrow>
                  (None,
                   fh1\<lparr>fh_wroteSegment := True, fh_target := t\<lparr>o_segmented := True\<rparr>\<rparr>,
                   createManifest t (o_c t) (o_cs t @ ''/'' @ prefix) (o_path t) w2)))"

definition Write ::
  "ObjectHandle \<Rightarrow> bytes \<Rightarrow> world \<Rightarrow> (error + nat) \<times> ObjectHandle \<times> world" where
  "Write fh Data w =
     (let fh0 = fh\<lparr>fh_target := (fh_target fh)\<lparr>o_writing := True\<rparr>\<rparr> in
      case (if \<not> fh_create fh0 \<and> \<not> fh_truncated fh0 then truncate fh0 w
            else (None, fh0, w)) of
        (Some e, fh1, w1) \<Rightarrow> (Inl e, fh1, w1)
      | (None, fh1, w1) \<Rightarrow>
          if (fh_uploaded fh1 + length Data) mod 2 ^ 64 \<le> SegmentSize w1 then
            (case fh_wd fh1 of
               None \<Rightarrow> (Inl Panic, fh1, w1)
             | Some wr \<Rightarrow>
                 (case Writer_Write wr Data w1 of
                    (Some e, w2) \<Rightarrow> (Inl e, fh1, w2)
                  | (None, w2) \<Rightarrow>
                      (let t = fh_target fh1 in
                       (Inr (length Data),
                        fh1\<lparr>fh_uploaded := (fh_uploaded fh1 + length Data) mod 2 ^ 64,
                            fh_target :=
                              t\<lparr>o_so := (o_so t)\<lparr>so_Bytes :=
                                    so_Bytes (o_so t) + int (length Data)\<rparr>\<rparr>\<rparr>,
                        w2))))
          else
            (case (if \<not> fh_wroteSegment fh1 then moveToSegment fh1 w1
                   else (None, fh1, w1)) of
               (Some e, fh2, w2) \<Rightarrow> (Inl e, fh2, w2)
             | (None, fh2, w2) \<Rightarrow>
                 (case fh_wd fh2 of
                    None \<Rightarrow> (Inl Panic, fh2, w2)
                  | Some wr \<Rightarrow>
                      (let (wr', w3) = Writer_Close wr w2 in
                       case initSegment (o_cs (fh_target fh2)) (fh_segmentPrefix fh2)
                              (fh_segmentID fh2) Data (fh_uploaded fh2) (fh_nonce fh2) w3 of
                         (Inl e, sid, up, nonce', w4) \<Rightarrow>
                           (Inl e,
                            fh2\<lparr>fh_wd := None, fh_segmentID := sid, fh_uploaded := up,
                                fh_nonce := nonce'\<rparr>, w4)
                       | (Inr seg, sid, up, nonce', w4) \<Rightarrow>
                           (Inr (length Data),
                            fh2\<lparr>fh_wd := Some seg, fh_segmentID := sid, fh_uploaded := up,
                                fh_nonce := nonce'\<rparr>, w4)))))"

text \<open>The end of \<^verbatim>\<open>Release\<close>: when the target is registered in the change cache, the
  registration is removed and the deferred \<^verbatim>\<open>Unlock\<close> runs; unlocking a mutex that is
  not locked is a fatal error of the Go run time.\<close>

definition unregister :: "ObjectHandle \<Rightarrow> world \<Rightarrow> error option \<times> ObjectHandle \<times> world" where
  "unregister fh w =
     (let t = fh_target fh in
      if SimpleCache_Exist (ChangeCache w) (o_c t) (o_path t) then
        (let w1 = w\<lparr>ChangeCache := SimpleCache_Remove (ChangeCache w) (o_c t) (o_path t)\<rparr>
         in if o_locked t then (None, fh\<lparr>fh_target := t\<lparr>o_locked := False\<rparr>\<rparr>, w1)
            else (Some Panic, fh, w1))
      else (None, fh, w))"

definition Release :: "ObjectHandle \<Rightarrow> world \<Rightarrow> error option \<times> ObjectHandle \<times> world" where
  "Release fh w =
     (let fh1 = (case fh_rd fh of
                   None \<Rightarrow> fh
                 | Some r \<Rightarrow> fh\<lparr>fh_rd := Some (r\<lparr>r_closed := True\<rparr>)\<rparr>)
      in case fh_wd fh1 of
           None \<Rightarrow> unregister fh1 w
         | Some wr \<Rightarrow>
             (let (wr', w1) = Writer_Close wr w;
                  fh2 = fh1\<lparr>fh_wd := Some wr'\<rparr>;
                  fh3 = fh2\<lparr>fh_target := (fh_target fh2)\<lparr>o_writing := False\<rparr>\<rparr>
              in if Encryption w1 then
                   (case updateHeaders (fh_target fh2) (fh_nonce fh2) w1 of
                      (Some e, w2) \<Rightarrow> (Some e, fh2, w2)
                    | (None, w2) \<Rightarrow> unregister fh3 w2)
                 else unregister fh3 w1))"

section \<open>Example states\<close>

text \<open>A mount with the data container \<open>data\<close> and the segments container \<open>segments\<close>,
  a segment size of 5 bytes and the clock at 42; the argument of \<open>ex_world\<close> says which
  requests the store rejects.\<close>

definition ex_entry :: "string \<Rightarrow> string \<Rightarrow> swift_Object" where
  "ex_entry n ct = \<lparr>so_Name = n, so_ContentType = ct, so_Bytes = 0, so_LastModified = 0,
                    so_Headers = []\<rparr>"

definition ex_root :: directory where
  "ex_root = \<lparr>d_apex = True, d_name = [], d_path = [], d_so = None, d_sh = [],
              d_c = ''data'', d_cs = ''segments''\<rparr>"

definition ex_world :: "(nat \<Rightarrow> bool) \<Rightarrow> world" where
  "ex_world f = \<lparr>SegmentSize = 5, Encryption = False, ExtraAttr = False,
     DirectoryCache = Map.empty, ChangeCache = Map.empty, now = 42, trace = [],
     fails = f, listed = (\<lambda>k. []), headed = (\<lambda>k. (ex_entry [] [], [])),
     body = (\<lambda>k. []), arrived = (\<lambda>k. 0), nonces = (\<lambda>k. [])\<rparr>"

text \<open>A listing that names the pseudo-directory \<open>a/\<close> before the directory marker
  \<open>a/\<close>.\<close>

definition ex_pseudo :: swift_Object where
  "ex_pseudo = ex_entry ''a/'' []"

definition ex_marker :: swift_Object where
  "ex_marker = ex_entry ''a/'' DirContentType"

definition ex_world5 :: world where
  "ex_world5 = (ex_world (\<lambda>k. False))\<lparr>listed := (\<lambda>k. [ex_pseudo, ex_marker])\<rparr>"

text \<open>The same two entries with the marker first.\<close>

definition ex_world5_marker_first :: world where
  "ex_world5_marker_first =
     (ex_world (\<lambda>k. False))\<lparr>listed := (\<lambda>k. [ex_marker, ex_pseudo])\<rparr>"

text \<open>A cached root directory with a symlink, a directory and a segmented object; the
  second argument of \<open>ex_world_dir\<close> is the manifest header a HEAD answers.\<close>

definition ex_link :: symlink where
  "ex_link = \<lparr>l_name = ''l'', l_path = ''l'', l_so = ex_entry ''l'' LinkContentType,
              l_sh = [], l_c = ''data''\<rparr>"

definition ex_sub :: directory where
  "ex_sub = \<lparr>d_apex = False, d_name = ''sub'', d_path = ''sub/'',
             d_so = Some (ex_entry ''sub'' DirContentType), d_sh = [],
             d_c = ''data'', d_cs = ''segments''\<rparr>"

definition ex_big :: object where
  "ex_big = \<lparr>o_name = ''big'', o_path = ''big'', o_so = ex_entry ''big'' [],
             o_sh = [(ManifestHeader, ''segments/big/42'')], o_c = ''data'',
             o_cs = ''segments'', o_locked = False, o_segmented = True,
             o_writing = False\<rparr>"

definition ex_cache :: cache where
  "ex_cache = Cache_AddAll Map.empty ''data'' [] (Directory ex_root)
     [(''l'', Symlink ex_link), (''sub'', Directory ex_sub), (''big'', Object ex_big)]"

definition ex_world_dir :: "(nat \<Rightarrow> bool) \<Rightarrow> string \<Rightarrow> world" where
  "ex_world_dir f manifest = (ex_world f)\<lparr>DirectoryCache := ex_cache,
     listed := (\<lambda>k. [ex_entry ''big/42/0'' [], ex_entry ''big/42/1'' []]),
     headed := (\<lambda>k. (ex_entry ''big'' [], [(ManifestHeader, manifest)]))\<rparr>"

text \<open>A cache with the root's entry (a symlink and the directory \<open>sub\<close>) and the entry
  of \<open>sub/\<close> itself (one object), in a world whose store rejects every request.\<close>

definition ex_world8 :: world where
  "ex_world8 = (ex_world (\<lambda>k. True))
     \<lparr>DirectoryCache :=
        Cache_AddAll
          (Cache_AddAll Map.empty ''data'' [] (Directory ex_root)
             [(''l'', Symlink ex_link), (''sub'', Directory ex_sub)])
          ''data'' ''sub/'' (Directory ex_sub)
          [(''x'', Object \<lparr>o_name = ''x'', o_path = ''sub/x'', o_so = ex_entry ''sub/x'' [],
              o_sh = [], o_c = ''data'', o_cs = ''segments'', o_locked = False,
              o_segmented = False, o_writing = False\<rparr>)]\<rparr>"

text \<open>The directory \<open>new\<close> as \<open>Mkdir\<close> builds it under the root, and the state after
  that \<open>Mkdir\<close> in the empty example world.\<close>

definition ex_new :: node where
  "ex_new = Directory \<lparr>d_apex = False, d_name = ''new'', d_path = ''new/'',
       d_so = Some \<lparr>so_Name = ''new'', so_ContentType = DirContentType, so_Bytes = 0,
                    so_LastModified = 42, so_Headers = []\<rparr>,
       d_sh = [], d_c = ''data'', d_cs = ''segments''\<rparr>"

definition ex_world_new :: world where
  "ex_world_new = (ex_world (\<lambda>k. False))
     \<lparr>trace := [ObjectPutBytes ''data'' ''new'' DirContentType],
      DirectoryCache := Cache_Set Map.empty ''data'' [] ''new'' ex_new\<rparr>"

text \<open>An object at \<open>path\<close> whose store object is named \<open>stored\<close>; \<open>busy\<close> says whether
  a write handle holds it (mutex locked, \<open>writing\<close> set). A handle on a target, with a
  writer or none, opened with create or not, and a count of uploaded bytes.\<close>

definition ex_file :: "string \<Rightarrow> string \<Rightarrow> bool \<Rightarrow> object" where
  "ex_file path stored busy = \<lparr>o_name = path, o_path = path, o_so = ex_entry stored [],
     o_sh = [], o_c = ''data'', o_cs = ''segments'', o_locked = busy, o_segmented = False,
     o_writing = busy\<rparr>"

definition ex_handle :: "object \<Rightarrow> writer option \<Rightarrow> bool \<Rightarrow> nat \<Rightarrow> ObjectHandle" where
  "ex_handle t wr cr up = \<lparr>fh_target = t, fh_rd = None, fh_wd = wr, fh_create = cr,
     fh_truncated = False, fh_nonce = ''n0'', fh_wroteSegment = False, fh_segmentID = 0,
     fh_uploaded = up, fh_segmentPrefix = [], fh_segmentPath = []\<rparr>"

definition ex_writer :: writer where
  "ex_writer = \<lparr>w_container = ''data'', w_path = ''f'', w_closed = False\<rparr>"

text \<open>The object \<open>a\<close> in the cached root, the same object after a rename to \<open>b\<close>, and
  the states before and after that rename.\<close>

definition ex_world2 :: world where
  "ex_world2 = (ex_world (\<lambda>k. False))
     \<lparr>DirectoryCache := Cache_AddAll Map.empty ''data'' [] (Directory ex_root)
        [(''a'', Object (ex_file ''a'' ''a'' False))]\<rparr>"

definition ex_renamed :: object where
  "ex_renamed = (ex_file ''a'' ''a'' False)\<lparr>o_name := ''b'', o_path := ''b''\<rparr>"

definition ex_world2_renamed :: world where
  "ex_world2_renamed = ex_world2
     \<lparr>trace := [ObjectMove ''data'' ''a'' ''data'' ''b''],
      DirectoryCache :=
        Cache_Set (Cache_Delete (DirectoryCache ex_world2) ''data'' [] ''a'')
          ''data'' [] ''b'' (Object ex_renamed)\<rparr>"

text \<open>Encryption on, the object \<open>f\<close> registered in the change cache by its write handle,
  and a store that rejects the second request it gets.\<close>

definition ex_world3 :: world where
  "ex_world3 = (ex_world (\<lambda>k. k = 1))
     \<lparr>Encryption := True,
      ChangeCache := SimpleCache_Add Map.empty ''data'' ''f'' (ex_file ''f'' ''f'' True)\<rparr>"

text \<open>A store whose object holds the three bytes \<open>abc\<close>, and the same store when the
  read that follows the open fails after one byte.\<close>

definition ex_world7 :: world where
  "ex_world7 = (ex_world (\<lambda>k. False))\<lparr>body := (\<lambda>k. ''abc'')\<rparr>"

definition ex_world7_cut :: world where
  "ex_world7_cut = (ex_world (\<lambda>k. k = 1))\<lparr>body := (\<lambda>k. ''abc''), arrived := (\<lambda>k. 1)\<rparr>"

section \<open>The store, the caches and the string helpers\<close>

lemma perform_eq:
  "perform c w = (if fails w (length (trace w)) then Some (Backend c) else None,
                  w\<lparr>trace := trace w @ [c]\<rparr>)"
  by (simp add: perform_def request_def)

text \<open>When the store accepts every delete, \<open>deleteEach\<close> sends one delete per listed
  segment, in order, and succeeds.\<close>

lemma deleteEach_accepted:
  "\<forall>i < length ss. \<not> fails w (length (trace w) + i) \<Longrightarrow>
     deleteEach c ss w =
       (None, w\<lparr>trace := trace w @ map (\<lambda>s. ObjectDelete c (so_Name s)) ss\<rparr>)"
proof (induction ss arbitrary: w)
  case Nil
  then show ?case by simp
next
  case (Cons s ss)
  let ?w1 = "w\<lparr>trace := trace w @ [ObjectDelete c (so_Name s)]\<rparr>"
  from Cons.prems have h0: "\<not> fails w (length (trace w))" by force
  have "\<forall>i < length ss. \<not> fails ?w1 (length (trace ?w1) + i)"
  proof (intro allI impI)
    fix i assume "i < length ss"
    then have "Suc i < length (s # ss)" by simp
    with Cons.prems have "\<not> fails w (length (trace w) + Suc i)" by blast
    then show "\<not> fails ?w1 (length (trace ?w1) + i)" by simp
  qed
  from Cons.IH [OF this] h0 show ?case
    by (simp add: perform_eq)
qed

lemma deleteSegments_accepted:
  assumes "\<forall>i \<le> length (listed w (length (trace w))). \<not> fails w (length (trace w) + i)"
  shows "deleteSegments c h w =
           (None, w\<lparr>trace := trace w @
               ObjectsAll c None (TrimPrefix h (c @ ''/'')) #
               map (\<lambda>s. ObjectDelete c (so_Name s)) (listed w (length (trace w)))\<rparr>)"
proof -
  let ?k = "length (trace w)"
  let ?w1 = "w\<lparr>trace := trace w @ [ObjectsAll c None (TrimPrefix h (c @ ''/''))]\<rparr>"
  from assms have h0: "\<not> fails w ?k" by force
  have "\<forall>i < length (listed w ?k). \<not> fails ?w1 (length (trace ?w1) + i)"
  proof (intro allI impI)
    fix i assume "i < length (listed w ?k)"
    then have "Suc i \<le> length (listed w ?k)" by simp
    with assms have "\<not> fails w (?k + Suc i)" by blast
    then show "\<not> fails ?w1 (length (trace ?w1) + i)" by simp
  qed
  from deleteEach_accepted [OF this, of c] h0 show ?thesis
    by (simp add: deleteSegments_def perform_eq Let_def)
qed

text \<open>Whatever the store answers, deleting segments changes nothing of the state but
  the trace, which it extends.\<close>

lemma deleteEach_trace: "\<exists>pre. snd (deleteEach c ss w) = w\<lparr>trace := trace w @ pre\<rparr>"
proof (induction ss arbitrary: w)
  case Nil
  show ?case by (rule exI [of _ "[]"]) simp
next
  case (Cons s ss)
  let ?w1 = "w\<lparr>trace := trace w @ [ObjectDelete c (so_Name s)]\<rparr>"
  from Cons.IH [of ?w1] obtain pre where
    "snd (deleteEach c ss ?w1) = ?w1\<lparr>trace := trace ?w1 @ pre\<rparr>" by blast
  then show ?case
    by (cases "fails w (length (trace w))") (auto simp: perform_eq)
qed

lemma deleteSegments_trace: "\<exists>pre. snd (deleteSegments c h w) = w\<lparr>trace := trace w @ pre\<rparr>"
proof -
  let ?w1 = "w\<lparr>trace := trace w @ [ObjectsAll c None (TrimPrefix h (c @ ''/''))]\<rparr>"
  from deleteEach_trace [of c "listed w (length (trace w))" ?w1] obtain pre where
    "snd (deleteEach c (listed w (length (trace w))) ?w1) = ?w1\<lparr>trace := trace ?w1 @ pre\<rparr>"
    by blast
  then show ?thesis
    by (cases "fails w (length (trace w))") (auto simp: deleteSegments_def perform_eq Let_def)
qed

lemma Cache_Get_Delete: "Cache_Get (Cache_Delete ca c p n) c p n = None"
  by (auto simp: Cache_Get_def Cache_Delete_def delete_conv split: option.splits)

lemma Cache_Peek_Set: "Cache_Peek (Cache_Set ca c p n x) c p"
  by (auto simp: Cache_Peek_def Cache_Set_def split: option.splits)

lemma Cache_Get_Set: "Cache_Get (Cache_Set ca c p n x) c p n = Some x"
  by (auto simp: Cache_Get_def Cache_Set_def update_conv split: option.splits)

text \<open>The segment-path pattern accepts exactly the strings \<open>container/rest\<close> with a
  non-empty container free of slashes and a rest free of line feeds.\<close>

lemma SegmentPathRegex_Match_iff:
  "SegmentPathRegex_Match s \<longleftrightarrow>
     (\<exists>a b. s = a @ CHR ''/'' # b \<and> a \<noteq> [] \<and> CHR ''/'' \<notin> set a \<and> CHR 0x0A \<notin> set b)"
proof
  assume m: "SegmentPathRegex_Match s"
  let ?a = "takeWhile (\<lambda>c. c \<noteq> CHR ''/'') s"
  let ?r = "dropWhile (\<lambda>c. c \<noteq> CHR ''/'') s"
  from m have ne: "?a \<noteq> []" and r: "?r \<noteq> []" and nl: "CHR 0x0A \<notin> set (tl ?r)"
    by (simp_all add: SegmentPathRegex_Match_def Let_def)
  from r have "hd ?r = CHR ''/''"
    using hd_dropWhile [of "\<lambda>c. c \<noteq> CHR ''/''" s] by simp
  with r have "?r = CHR ''/'' # tl ?r" by (cases ?r) simp_all
  then have "s = ?a @ CHR ''/'' # tl ?r"
    by (metis takeWhile_dropWhile_id)
  moreover have "CHR ''/'' \<notin> set ?a"
    by (auto dest: set_takeWhileD)
  ultimately show "\<exists>a b. s = a @ CHR ''/'' # b \<and> a \<noteq> [] \<and> CHR ''/'' \<notin> set a
      \<and> CHR 0x0A \<notin> set b"
    using ne nl by blast
next
  assume "\<exists>a b. s = a @ CHR ''/'' # b \<and> a \<noteq> [] \<and> CHR ''/'' \<notin> set a \<and> CHR 0x0A \<notin> set b"
  then obtain a b where s: "s = a @ CHR ''/'' # b" and a: "a \<noteq> []" "CHR ''/'' \<notin> set a"
    and b: "CHR 0x0A \<notin> set b" by blast
  from a(2) have free: "x \<noteq> CHR ''/''" if "x \<in> set a" for x
    using that by auto
  have "takeWhile (\<lambda>c. c \<noteq> CHR ''/'') (a @ CHR ''/'' # b)
          = a @ takeWhile (\<lambda>c. c \<noteq> CHR ''/'') (CHR ''/'' # b)"
    by (rule takeWhile_append2) (rule free)
  then have "takeWhile (\<lambda>c. c \<noteq> CHR ''/'') s = a"
    unfolding s by simp
  moreover have "dropWhile (\<lambda>c. c \<noteq> CHR ''/'') (a @ CHR ''/'' # b)
          = dropWhile (\<lambda>c. c \<noteq> CHR ''/'') (CHR ''/'' # b)"
    by (rule dropWhile_append2) (rule free)
  then have "dropWhile (\<lambda>c. c \<noteq> CHR ''/'') s = CHR ''/'' # b"
    unfolding s by simp
  ultimately show "SegmentPathRegex_Match s"
    using a b by (simp add: SegmentPathRegex_Match_def)
qed

lemma FolderRegex_HasSuffix: "FolderRegex_Match s \<Longrightarrow> HasSuffix s ''/''"
proof -
  assume a: "FolderRegex_Match s"
  then have ne: "s \<noteq> []" and l: "last s = CHR ''/''"
    by (auto simp: FolderRegex_Match_def)
  from ne have "s = butlast s @ [last s]" by simp
  then have "drop (length s - 1) s = [last s]"
    by (metis append_eq_conv_conj length_butlast)
  with ne l show ?thesis by (cases s) (auto simp: HasSuffix_def)
qed

lemma digits_0: "digits 0 = ''0''"
  by code_simp

lemma digits_1: "digits 1 = ''1''"
  by code_simp

lemma itoa_0: "itoa 0 = ''0''"
  by (simp add: itoa_def digits_0)

lemma itoa_42: "itoa 42 = ''42''"
  by code_simp

lemmas ex_defs = ex_entry_def ex_root_def ex_world_def ex_pseudo_def ex_marker_def
  ex_world5_def ex_link_def ex_sub_def ex_big_def ex_cache_def ex_world_dir_def
  ex_new_def ex_world_new_def ex_file_def ex_handle_def ex_writer_def ex_world2_def
  ex_renamed_def ex_world2_renamed_def ex_world3_def ex_world7_def ex_world7_cut_def
  ex_world5_marker_first_def ex_world8_def

lemmas string_defs = HasPrefix_def HasSuffix_def TrimPrefix_def TrimSuffix_def
  FolderRegex_Match_def SegmentPathRegex_Match_def hget_def DirContentType_def
  LinkContentType_def ObjContentType_def ObjectSymlinkHeader_def ObjectMetaHeader_def
  ObjectSizeHeader_def ObjectNonceHeader_def ManifestHeader_def

lemmas cache_defs = Cache_Peek_def Cache_GetAll_def Cache_AddAll_def Cache_Get_def
  Cache_Set_def Cache_Delete_def Cache_DeleteAll_def SimpleCache_Exist_def
  SimpleCache_Get_def SimpleCache_Add_def SimpleCache_Remove_def

section \<open>Remove\<close>

text \<open>The directories that \<open>Mkdir\<close> and the listing loop build have a store object,
  their parent's container, and the name under which they are cached.\<close>

lemma Mkdir_directory:
  assumes "Mkdir d name w = (Inr (Directory dd), w')"
  shows "d_so dd \<noteq> None \<and> d_name dd = name \<and> d_c dd = d_c d
       \<and> Cache_Get (DirectoryCache w') (d_c d) (d_path d) name = Some (Directory dd)"
  using assms
  by (auto simp: Mkdir_def perform_eq Let_def Cache_Get_Set split: if_splits)

lemma classify_directory:
  assumes "fst (classify d w ds so) = Emit (Directory dd)
         \<or> fst (classify d w ds so) = Enqueue (Directory dd)"
  shows "d_so dd = Some so \<and> d_name dd = fileName_of d so \<and> d_c dd = d_c d"
  using assms
  by (auto simp: classify_def finish_def Let_def split: if_splits option.splits)

text \<open>Claim C9. For every \<open>Remove(name)\<close> where the node cached under \<open>name\<close> is neither a
  Directory nor an Object (a Symlink, another kind of node, or no node at all), the
  operation returns the not-supported error and leaves the whole state as it was: no
  request reaches the store, so no delete does.\<close>

theorem C9_Remove_not_supported:
  assumes "\<forall>dd. Cache_Get (DirectoryCache w) (d_c d) (d_path d) name \<noteq> Some (Directory dd)"
      and "\<forall>ob. Cache_Get (DirectoryCache w) (d_c d) (d_path d) name \<noteq> Some (Object ob)"
  shows "Remove d name w = (Some ENOTSUP, w)"
  using assms by (auto simp: Remove_def split: option.splits node.splits)

theorem C9_Remove_not_supported_witness:
  "Cache_Get (DirectoryCache (ex_world_dir (\<lambda>k. False) [])) ''data'' [] ''l''
     = Some (Symlink ex_link)
   \<and> Remove ex_root ''l'' (ex_world_dir (\<lambda>k. False) [])
       = (Some ENOTSUP, ex_world_dir (\<lambda>k. False) [])
   \<and> Cache_Get (DirectoryCache (ex_world_dir (\<lambda>k. False) [])) ''data'' [] ''none'' = None
   \<and> Remove ex_root ''none'' (ex_world_dir (\<lambda>k. False) [])
       = (Some ENOTSUP, ex_world_dir (\<lambda>k. False) [])"
  using C9_Remove_not_supported [of "ex_world_dir (\<lambda>k. False) []" ex_root "''l''"]
        C9_Remove_not_supported [of "ex_world_dir (\<lambda>k. False) []" ex_root "''none''"]
  by (simp add: ex_defs cache_defs)

text \<open>Claim C8. For every \<open>Remove(name)\<close> where the cached child is a Directory (with a
  store object, as every directory that \<open>Mkdir\<close> and the listing put in the cache has),
  the operation sends one delete for the marker and returns success whether or not the
  store accepts it. Of the state only the trace and the directory cache change, and of
  the cache only two entries: the children entry of the removed directory is evicted
  (it is absent afterwards, whether it was present or not), and the entry of the parent
  path loses the child's name and keeps its parent node and every other child; all other
  entries are as before. The source deletes under the child's own name and container; for
  a child cached under its own name in its parent's container this is \<open>name\<close> in the
  parent's entry.\<close>

theorem C8_Remove_directory:
  assumes "Cache_Get (DirectoryCache w) (d_c d) (d_path d) name = Some (Directory dd)"
      and "d_so dd = Some so"
  shows "Remove d name w =
           (None,
            w\<lparr>trace := trace w @ [ObjectDelete (d_c dd) (so_Name so)],
              DirectoryCache :=
                (\<lambda>key. if key = (d_c dd, d_path dd) then None
                       else if key = (d_c dd, d_path d)
                            then map_option (\<lambda>(par, ch). (par, AList.delete (d_name dd) ch))
                                   (DirectoryCache w key)
                       else DirectoryCache w key)\<rparr>)
       \<and> \<not> Cache_Peek (DirectoryCache (snd (Remove d name w))) (d_c dd) (d_path dd)
       \<and> Cache_Get (DirectoryCache (snd (Remove d name w))) (d_c dd) (d_path d) (d_name dd)
           = None
       \<and> (d_c dd = d_c d \<and> d_name dd = name \<longrightarrow>
            Cache_Get (DirectoryCache (snd (Remove d name w))) (d_c d) (d_path d) name = None
            \<and> (d_path dd \<noteq> d_path d \<longrightarrow>
                 (\<forall>m. m \<noteq> name \<longrightarrow>
                    Cache_Get (DirectoryCache (snd (Remove d name w))) (d_c d) (d_path d) m
                      = Cache_Get (DirectoryCache w) (d_c d) (d_path d) m)))"
proof -
  let ?C = "\<lambda>key. if key = (d_c dd, d_path dd) then None
       else if key = (d_c dd, d_path d)
            then map_option (\<lambda>(par, ch). (par, AList.delete (d_name dd) ch))
                   (DirectoryCache w key)
       else DirectoryCache w key"
  have cache: "Cache_Delete
      (if Cache_Peek (DirectoryCache w) (d_c dd) (d_path dd)
       then Cache_DeleteAll (DirectoryCache w) (d_c dd) (d_path dd) else DirectoryCache w)
      (d_c dd) (d_path d) (d_name dd) = ?C"
    by (rule ext)
       (auto simp: Cache_Delete_def Cache_Peek_def Cache_DeleteAll_def split: option.splits)
  have run: "Remove d name w =
      (None, w\<lparr>trace := trace w @ [ObjectDelete (d_c dd) (so_Name so)],
               DirectoryCache := ?C\<rparr>)"
    using assms cache
    by (simp add: Remove_def removeDirectory_def perform_eq Let_def if_distrib [of DirectoryCache]
          cong: if_cong)
  show ?thesis
    unfolding run
    by (auto simp: Cache_Peek_def Cache_Get_def delete_conv split: option.splits)
qed

theorem C8_Remove_directory_witness:
  "Cache_Get (DirectoryCache ex_world8) ''data'' [] ''sub'' = Some (Directory ex_sub)
   \<and> Cache_Peek (DirectoryCache ex_world8) ''data'' ''sub/''
   \<and> fails ex_world8 0
   \<and> fst (Remove ex_root ''sub'' ex_world8) = None
   \<and> trace (snd (Remove ex_root ''sub'' ex_world8)) = [ObjectDelete ''data'' ''sub'']
   \<and> \<not> Cache_Peek (DirectoryCache (snd (Remove ex_root ''sub'' ex_world8))) ''data'' ''sub/''
   \<and> Cache_Get (DirectoryCache (snd (Remove ex_root ''sub'' ex_world8))) ''data'' [] ''sub''
       = None
   \<and> Cache_Get (DirectoryCache (snd (Remove ex_root ''sub'' ex_world8))) ''data'' [] ''l''
       = Some (Symlink ex_link)"
  using C8_Remove_directory [of ex_world8 ex_root "''sub''" ex_sub
          "ex_entry ''sub'' DirContentType"]
  by (simp add: ex_defs cache_defs)

text \<open>Claim C4. For every \<open>Remove(name)\<close> where the cached child is a segmented Object
  and the store answers the HEAD of the object: if the \<open>X-Object-Manifest\<close> header of the
  answer does not match \<^verbatim>\<open>^([^/]+)/(.*)$\<close>, the operation returns the formatted error
  and the HEAD is the only request sent (no segment and no manifest is deleted, the cache
  is unchanged); if it matches and the store accepts the listing and the deletes of the
  segments, every listed segment is deleted, then the manifest object, and \<open>name\<close> is
  removed from the parent's cache entry.\<close>

theorem C4_Remove_segmented_object:
  assumes cached: "Cache_Get (DirectoryCache w) (d_c d) (d_path d) name = Some (Object ob)"
      and seg: "o_segmented ob"
      and head: "\<not> fails w (length (trace w))"
  shows "let k = length (trace w);
             path = d_path d @ name;
             h = hget (snd (headed w k)) ManifestHeader;
             segments = listed w (Suc k)
         in (\<not> SegmentPathRegex_Match h \<longrightarrow>
               Remove d name w =
                 (Some (Errorf (''Invalid segment path for manifest '' @ name)),
                  w\<lparr>trace := trace w @ [ObjectHead (d_c d) path]\<rparr>))
          \<and> (SegmentPathRegex_Match h
                \<and> (\<forall>i \<le> length segments. \<not> fails w (Suc k + i)) \<longrightarrow>
               Remove d name w =
                 (None,
                  w\<lparr>trace := trace w @ [ObjectHead (d_c d) path,
                         ObjectsAll (d_cs d) None (TrimPrefix h (d_cs d @ ''/''))]
                       @ map (\<lambda>s. ObjectDelete (d_cs d) (so_Name s)) segments
                       @ [ObjectDelete (d_c d) path],
                     DirectoryCache :=
                       Cache_Delete (DirectoryCache w) (d_c d) (d_path d) name\<rparr>)
               \<and> Cache_Get (DirectoryCache (snd (Remove d name w)))
                    (d_c d) (d_path d) name = None)"
proof -
  let ?k = "length (trace w)"
  let ?path = "d_path d @ name"
  let ?h = "hget (snd (headed w ?k)) ManifestHeader"
  let ?w1 = "w\<lparr>trace := trace w @ [ObjectHead (d_c d) ?path]\<rparr>"
  let ?segs = "listed w (Suc ?k)"
  have bad: "Remove d name w =
      (Some (Errorf (''Invalid segment path for manifest '' @ name)), ?w1)"
    if "\<not> SegmentPathRegex_Match ?h"
    using that cached seg head
    by (simp add: Remove_def removeObject_def perform_eq Let_def)
  have good: "Remove d name w =
      (None, w\<lparr>trace := trace w @ [ObjectHead (d_c d) ?path,
                   ObjectsAll (d_cs d) None (TrimPrefix ?h (d_cs d @ ''/''))]
                 @ map (\<lambda>s. ObjectDelete (d_cs d) (so_Name s)) ?segs
                 @ [ObjectDelete (d_c d) ?path],
               DirectoryCache := Cache_Delete (DirectoryCache w) (d_c d) (d_path d) name\<rparr>)"
    if m: "SegmentPathRegex_Match ?h" and acc: "\<forall>i \<le> length ?segs. \<not> fails w (Suc ?k + i)"
  proof -
    have "\<forall>i \<le> length (listed ?w1 (length (trace ?w1))).
            \<not> fails ?w1 (length (trace ?w1) + i)"
      using acc by simp
    from deleteSegments_accepted [OF this, of "d_cs d" ?h]
    show ?thesis
      using m cached seg head
      by (simp add: Remove_def removeObject_def perform_eq Let_def)
  qed
  show ?thesis
    unfolding Let_def
  proof (intro conjI impI)
    assume "\<not> SegmentPathRegex_Match ?h"
    then show "Remove d name w =
      (Some (Errorf (''Invalid segment path for manifest '' @ name)), ?w1)"
      by (rule bad)
  next
    assume a: "SegmentPathRegex_Match ?h \<and> (\<forall>i \<le> length ?segs. \<not> fails w (Suc ?k + i))"
    then show "Remove d name w =
      (None, w\<lparr>trace := trace w @ [ObjectHead (d_c d) ?path,
                   ObjectsAll (d_cs d) None (TrimPrefix ?h (d_cs d @ ''/''))]
                 @ map (\<lambda>s. ObjectDelete (d_cs d) (so_Name s)) ?segs
                 @ [ObjectDelete (d_c d) ?path],
               DirectoryCache := Cache_Delete (DirectoryCache w) (d_c d) (d_path d) name\<rparr>)"
      using good by blast
  next
    assume a: "SegmentPathRegex_Match ?h \<and> (\<forall>i \<le> length ?segs. \<not> fails w (Suc ?k + i))"
    then show "Cache_Get (DirectoryCache (snd (Remove d name w))) (d_c d) (d_path d) name = None"
      using good by (simp add: Cache_Get_Delete)
  qed
qed

theorem C4_Remove_segmented_object_witness:
  "Remove ex_root ''big'' (ex_world_dir (\<lambda>k. False) ''segments/big/42'') =
     (None, (ex_world_dir (\<lambda>k. False) ''segments/big/42'')
        \<lparr>trace := [ObjectHead ''data'' ''big'', ObjectsAll ''segments'' None ''big/42'',
                   ObjectDelete ''segments'' ''big/42/0'', ObjectDelete ''segments'' ''big/42/1'',
                   ObjectDelete ''data'' ''big''],
         DirectoryCache := Cache_Delete ex_cache ''data'' [] ''big''\<rparr>)
   \<and> Remove ex_root ''big'' (ex_world_dir (\<lambda>k. False) ''nowhere'') =
     (Some (Errorf ''Invalid segment path for manifest big''),
      (ex_world_dir (\<lambda>k. False) ''nowhere'')\<lparr>trace := [ObjectHead ''data'' ''big'']\<rparr>)"
  using C4_Remove_segmented_object
          [of "ex_world_dir (\<lambda>k. False) ''segments/big/42''" ex_root "''big''" ex_big]
        C4_Remove_segmented_object
          [of "ex_world_dir (\<lambda>k. False) ''nowhere''" ex_root "''big''" ex_big]
  by (simp add: ex_defs Cache_AddAll_def Cache_Get_def string_defs Let_def)

section \<open>Rename\<close>

text \<open>Claim C10. For every \<open>Rename(oldname, newdir, newname)\<close> where \<open>newdir\<close> is a
  Directory and the node cached under \<open>oldname\<close> in the source directory is not an Object
  (a Directory, a Symlink, another node, or none), the operation returns the
  not-supported error and leaves the whole state as it was: no request reaches the
  store. In particular a directory cannot be renamed.\<close>

theorem C10_Rename_not_supported:
  assumes "\<forall>ob. Cache_Get (DirectoryCache w) (d_c d) (d_path d) OldName \<noteq> Some (Object ob)"
  shows "Rename d OldName NewName (Directory t) w = (Some ENOTSUP, w)"
  using assms by (auto simp: Rename_def move_def split: option.splits node.splits)

theorem C10_Rename_not_supported_witness:
  "Cache_Get (DirectoryCache (ex_world_dir (\<lambda>k. False) [])) ''data'' [] ''sub''
     = Some (Directory ex_sub)
   \<and> Rename ex_root ''sub'' ''sub2'' (Directory ex_root) (ex_world_dir (\<lambda>k. False) [])
     = (Some ENOTSUP, ex_world_dir (\<lambda>k. False) [])"
  using C10_Rename_not_supported
          [of "ex_world_dir (\<lambda>k. False) []" ex_root "''sub''" "''sub2''" ex_root]
  by (simp add: ex_defs cache_defs)

section \<open>Mkdir and Lookup\<close>

text \<open>Claim C6. For every directory \<open>d\<close> and name \<open>n\<close>, after a successful \<open>Mkdir(n)\<close> on
  \<open>d\<close> a following \<open>Lookup(n)\<close> on \<open>d\<close> returns the Directory node that \<open>Mkdir\<close> returned
  and leaves the state as it is: the cache entry \<open>Mkdir\<close> installed satisfies the Peek and
  the Get of \<open>Lookup\<close>, so the trace gets no request, in particular no object listing.\<close>

theorem C6_Lookup_after_Mkdir:
  assumes "Mkdir d name w = (Inr nd, w')"
  shows "(\<exists>dir. nd = Directory dir) \<and> Lookup d name w' = (Inr nd, w')"
  using assms
  by (auto simp: Mkdir_def Lookup_def perform_eq Let_def Cache_Peek_Set Cache_Get_Set
      split: if_splits)

lemma ex_Mkdir: "Mkdir ex_root ''new'' (ex_world (\<lambda>k. False)) = (Inr ex_new, ex_world_new)"
  by (simp add: Mkdir_def perform_eq ex_defs Let_def)

theorem C6_Lookup_after_Mkdir_witness:
  "Mkdir ex_root ''new'' (ex_world (\<lambda>k. False)) = (Inr ex_new, ex_world_new)
   \<and> Lookup ex_root ''new'' ex_world_new = (Inr ex_new, ex_world_new)
   \<and> trace ex_world_new = [ObjectPutBytes ''data'' ''new'' DirContentType]"
  using C6_Lookup_after_Mkdir [OF ex_Mkdir] ex_Mkdir
  by (simp add: ex_world_new_def)

section \<open>The listing loop\<close>

lemma classify_dirs:
  "snd (classify d w ds so) = (if names_dir d so then insert (fileName_of d so) ds else ds)"
  by (auto simp: classify_def names_dir_def Let_def split: option.splits)

lemma fill_dirs: "dirs (fill d w st so) = snd (classify d w (dirs st) so)"
  by (cases "classify d w (dirs st) so" ; cases "fst (classify d w (dirs st) so)")
     (auto simp: fill_def)

text \<open>After a prefix of the listing, \<^verbatim>\<open>dirs\<close> holds the short names of the real
  directories and pseudo-directories of that prefix.\<close>

lemma foldl_fill_dirs:
  "dirs (foldl (fill d w) st pre) =
     dirs st \<union> fileName_of d ` {e \<in> set pre. names_dir d e}"
  by (induction pre arbitrary: st) (auto simp: fill_dirs classify_dirs)

lemma finish_not_Skip: "finish w n \<noteq> Skip"
  by (simp add: finish_def)

lemma classify_pseudo:
  assumes "\<not> isSymlink so (d_path d)" "\<not> isDirectory so (d_path d)"
      and "isPseudoDirectory so (d_path d)"
  shows "fst (classify d w ds so) =
           (if fileName_of d so \<in> ds then Skip
            else finish w (Directory \<lparr>d_apex = False, d_name = fileName_of d so,
                    d_path = so_Name so, d_so = Some so, d_sh = [], d_c = d_c d,
                    d_cs = d_cs d\<rparr>))"
proof -
  from assms(3) have "HasSuffix (so_Name so) ''/''"
    by (simp add: isPseudoDirectory_def FolderRegex_HasSuffix)
  with assms show ?thesis by (simp add: classify_def Let_def)
qed

lemma ex_classes:
  "isPseudoDirectory ex_pseudo (d_path ex_root) \<and> \<not> isDirectory ex_pseudo (d_path ex_root)
   \<and> \<not> isSymlink ex_pseudo (d_path ex_root)
   \<and> isDirectory ex_marker (d_path ex_root) \<and> \<not> isSymlink ex_marker (d_path ex_root)
   \<and> fileName_of ex_root ex_marker = fileName_of ex_root ex_pseudo"
  by (simp add: ex_defs string_defs isPseudoDirectory_def isDirectory_def isSymlink_def
      fileName_of_def)

text \<open>An entry the loop skips leaves the local state of the loop as it was.\<close>

lemma fill_seen_pseudo:
  assumes "\<not> isSymlink so (d_path d)" "\<not> isDirectory so (d_path d)"
      and "isPseudoDirectory so (d_path d)" and "fileName_of d so \<in> dirs st"
  shows "fill d w st so = st"
proof -
  from assms have "fst (classify d w (dirs st) so) = Skip"
    by (simp add: classify_pseudo)
  moreover from assms have "snd (classify d w (dirs st) so) = dirs st"
    by (simp add: classify_dirs names_dir_def insert_absorb)
  ultimately have "classify d w (dirs st) so = (Skip, dirs st)"
    by (metis prod.collapse)
  then show ?thesis by (simp add: fill_def)
qed

text \<open>The lister changes the headers of a node, not its direntry.\<close>

lemma Export_node_headers: "Export (node_headers h n) = Export n"
  by (cases n) simp_all

lemma Export_enrich: "Export (fst (enrich n w)) = Export n"
  by (cases "fails w (length (trace w))")
     (simp_all add: enrich_def perform_eq Let_def Export_node_headers)

lemma Export_enrichAll: "map Export (fst (enrichAll ns w)) = map Export ns"
proof (induction ns arbitrary: w)
  case Nil
  show ?case by simp
next
  case (Cons n ns)
  obtain n' w' where e: "enrich n w = (n', w')" by (cases "enrich n w") auto
  obtain ns' w'' where es: "enrichAll ns w' = (ns', w'')" by (cases "enrichAll ns w'") auto
  from e have "Export n' = Export n" using Export_enrich [of n w] by simp
  moreover from es have "map Export ns' = map Export ns" using Cons.IH [of w'] by simp
  ultimately show ?case using e es by simp
qed

text \<open>The direntries \<open>fillCache\<close> returns are those the loop emitted, followed by those of
  the nodes it handed to the lister.\<close>

lemma fillCache_direntries:
  "fst (fillCache d w xs) =
     Inr (direntries (foldl (fill d w) listing_init xs)
          @ map Export (tasks (foldl (fill d w) listing_init xs)))"
proof -
  let ?st = "foldl (fill d w) listing_init xs"
  obtain posted w2 where e: "enrichAll (tasks ?st) w = (posted, w2)"
    by (cases "enrichAll (tasks ?st) w") auto
  then have "map Export posted = map Export (tasks ?st)"
    using Export_enrichAll [of "tasks ?st" w] by simp
  with e show ?thesis by (simp add: fillCache_def Let_def)
qed

text \<open>How one round of the loop changes the number of directory direntries with the
  short name \<open>n\<close>, counted over the direntries emitted and the nodes handed to the
  lister: a real directory of that name adds one; a pseudo-directory of that name adds
  one when the name is not in \<^verbatim>\<open>dirs\<close>; nothing else adds any.\<close>

lemma fill_count:
  "count_list (direntries (fill d w st so) @ map Export (tasks (fill d w st so)))
       \<lparr>de_Name = n, de_Type = DT_Dir\<rparr> =
   count_list (direntries st @ map Export (tasks st)) \<lparr>de_Name = n, de_Type = DT_Dir\<rparr>
   + (if \<not> isSymlink so (d_path d) \<and> fileName_of d so = n
         \<and> (isDirectory so (d_path d)
            \<or> isPseudoDirectory so (d_path d) \<and> n \<notin> dirs st)
      then 1 else 0)"
proof -
  consider (link) "isSymlink so (d_path d)"
    | (real) "\<not> isSymlink so (d_path d)" "isDirectory so (d_path d)"
    | (pseudo) "\<not> isSymlink so (d_path d)" "\<not> isDirectory so (d_path d)"
        "isPseudoDirectory so (d_path d)" "fileName_of d so \<notin> dirs st"
    | (other) "\<not> isSymlink so (d_path d)" "\<not> isDirectory so (d_path d)"
        "\<not> (isPseudoDirectory so (d_path d) \<and> fileName_of d so \<notin> dirs st)"
    by blast
  then show ?thesis
  proof cases
    case link
    then show ?thesis by (simp add: fill_def classify_def Let_def)
  next
    case real
    then show ?thesis by (auto simp: fill_def classify_def finish_def Let_def)
  next
    case pseudo
    then show ?thesis by (auto simp: fill_def classify_def finish_def Let_def)
  next
    case other
    then show ?thesis
      by (auto simp: fill_def classify_def finish_def Let_def split: option.splits)
  qed
qed

lemma fill_dirs_mono: "n \<in> dirs st \<Longrightarrow> n \<in> dirs (fill d w st so)"
  by (simp add: fill_dirs classify_dirs)

lemma foldl_fill_count_unseen:
  assumes "\<forall>e \<in> set pre. names_dir d e \<longrightarrow> fileName_of d e \<noteq> n"
  shows "count_list (direntries (foldl (fill d w) st pre)
                     @ map Export (tasks (foldl (fill d w) st pre)))
           \<lparr>de_Name = n, de_Type = DT_Dir\<rparr>
         = count_list (direntries st @ map Export (tasks st)) \<lparr>de_Name = n, de_Type = DT_Dir\<rparr>"
  using assms
proof (induction pre arbitrary: st)
  case Nil
  show ?case by simp
next
  case (Cons e pre)
  from Cons.prems have rest: "\<forall>x \<in> set pre. names_dir d x \<longrightarrow> fileName_of d x \<noteq> n"
    and this_one: "names_dir d e \<longrightarrow> fileName_of d e \<noteq> n" by simp_all
  from this_one have "count_list (direntries (fill d w st e) @ map Export (tasks (fill d w st e)))
       \<lparr>de_Name = n, de_Type = DT_Dir\<rparr>
     = count_list (direntries st @ map Export (tasks st)) \<lparr>de_Name = n, de_Type = DT_Dir\<rparr>"
    unfolding fill_count by (auto simp: names_dir_def)
  with Cons.IH [OF rest, of "fill d w st e"] show ?case by simp
qed

lemma foldl_fill_count_seen:
  assumes "n \<in> dirs st"
  shows "count_list (direntries (foldl (fill d w) st post)
                     @ map Export (tasks (foldl (fill d w) st post)))
           \<lparr>de_Name = n, de_Type = DT_Dir\<rparr>
         = count_list (direntries st @ map Export (tasks st)) \<lparr>de_Name = n, de_Type = DT_Dir\<rparr>
           + length (filter (\<lambda>e. \<not> isSymlink e (d_path d) \<and> isDirectory e (d_path d)
                                \<and> fileName_of d e = n) post)"
  using assms
proof (induction post arbitrary: st)
  case Nil
  show ?case by simp
next
  case (Cons e post)
  from Cons.prems have seen: "n \<in> dirs (fill d w st e)" by (rule fill_dirs_mono)
  from Cons.prems have "count_list (direntries (fill d w st e) @ map Export (tasks (fill d w st e)))
       \<lparr>de_Name = n, de_Type = DT_Dir\<rparr>
     = count_list (direntries st @ map Export (tasks st)) \<lparr>de_Name = n, de_Type = DT_Dir\<rparr>
       + (if \<not> isSymlink e (d_path d) \<and> isDirectory e (d_path d) \<and> fileName_of d e = n
          then 1 else 0)"
    unfolding fill_count by auto
  with Cons.IH [OF seen] show ?case by simp
qed

text \<open>Claim C5, as stated, fails: the listing names the pseudo-directory \<open>a/\<close> and then
  the real directory marker \<open>a/\<close>, both with the short name \<open>a\<close>; the loop emits the
  pseudo-directory although the marker is present in the same listing, and
  \<open>ReadDirAll\<close> returns two direntries \<open>a\<close>.\<close>

theorem C5_pseudo_directory_before_marker:
  "isPseudoDirectory ex_pseudo (d_path ex_root) \<and> \<not> isDirectory ex_pseudo (d_path ex_root)
   \<and> \<not> isSymlink ex_pseudo (d_path ex_root)
   \<and> isDirectory ex_marker (d_path ex_root) \<and> \<not> isSymlink ex_marker (d_path ex_root)
   \<and> fileName_of ex_root ex_marker = fileName_of ex_root ex_pseudo
   \<and> listed ex_world5 0 = [ex_pseudo, ex_marker]
   \<and> fst (classify ex_root ex_world5
         (dirs (foldl (fill ex_root ex_world5) listing_init [])) ex_pseudo)
       = Emit (Directory \<lparr>d_apex = False, d_name = ''a'', d_path = ''a/'',
                 d_so = Some ex_pseudo, d_sh = [], d_c = ''data'', d_cs = ''segments''\<rparr>)
   \<and> fst (ReadDirAll ex_root ex_world5) =
       Inr [\<lparr>de_Name = ''a'', de_Type = DT_Dir\<rparr>, \<lparr>de_Name = ''a'', de_Type = DT_Dir\<rparr>]"
  by (simp add: ex_defs string_defs isPseudoDirectory_def isDirectory_def isSymlink_def
      fileName_of_def ReadDirAll_def fillCache_def Cache_GetAll_def perform_eq Let_def
      fill_def classify_def finish_def listing_init_def isLargeObject_def SimpleCache_Get_def)

text \<open>Claim C5, amended. For every \<open>ReadDirAll\<close> that finds no cache entry and whose
  listing the store serves, and every entry of the listing that is classified as a
  pseudo-directory: the entry adds a directory direntry under its short name to the
  emitted direntries if and only if no entry before it in the same listing that is
  classified as a real directory marker or as a pseudo-directory has that short name;
  the entries after it play no part in this. When such an earlier entry exists,
  \<open>ReadDirAll\<close> returns what it returns for the listing without the entry (the same
  direntries, cache and state). When none exists, the direntries returned hold one
  directory direntry of that short name for the entry and one more for each real
  directory marker of that name later in the listing.\<close>

theorem C5_pseudo_directory_first_seen:
  assumes miss: "Cache_GetAll (DirectoryCache w) (d_c d) (d_path d) = None"
      and served: "\<not> fails w (length (trace w))"
      and listing: "listed w (length (trace w)) = pre @ so # post"
      and pseudo: "\<not> isSymlink so (d_path d)" "\<not> isDirectory so (d_path d)"
                  "isPseudoDirectory so (d_path d)"
  shows "let w1 = w\<lparr>trace := trace w @ [ObjectsAll (d_c d) (Some CHR ''/'') (d_path d)]\<rparr>;
             n = fileName_of d so
         in ((\<exists>e \<in> set pre. names_dir d e \<and> fileName_of d e = n) \<longrightarrow>
               fst (classify d w1 (dirs (foldl (fill d w1) listing_init pre)) so) = Skip
               \<and> ReadDirAll d w = fillCache d w1 (pre @ post))
          \<and> ((\<forall>e \<in> set pre. names_dir d e \<longrightarrow> fileName_of d e \<noteq> n) \<longrightarrow>
               fst (classify d w1 (dirs (foldl (fill d w1) listing_init pre)) so) \<noteq> Skip
               \<and> (\<exists>ents. fst (ReadDirAll d w) = Inr ents
                    \<and> count_list ents \<lparr>de_Name = n, de_Type = DT_Dir\<rparr> =
                        1 + length (filter (\<lambda>e. \<not> isSymlink e (d_path d)
                                  \<and> isDirectory e (d_path d) \<and> fileName_of d e = n) post)))"
proof -
  let ?w1 = "w\<lparr>trace := trace w @ [ObjectsAll (d_c d) (Some CHR ''/'') (d_path d)]\<rparr>"
  let ?n = "fileName_of d so"
  let ?D = "\<lparr>de_Name = ?n, de_Type = DT_Dir\<rparr>"
  let ?st = "foldl (fill d ?w1) listing_init pre"
  have run: "ReadDirAll d w = fillCache d ?w1 (pre @ so # post)"
    using miss served listing by (simp add: ReadDirAll_def perform_eq Let_def)
  have seen: "dirs ?st = fileName_of d ` {e \<in> set pre. names_dir d e}"
    by (simp add: foldl_fill_dirs listing_init_def)
  have decided: "fst (classify d ?w1 ds so) \<noteq> Skip \<longleftrightarrow> ?n \<notin> ds" for ds
    using pseudo by (simp add: classify_pseudo finish_not_Skip)
  have first: "fst (classify d ?w1 (dirs ?st) so) = Skip \<and> ReadDirAll d w = fillCache d ?w1 (pre @ post)"
    if "\<exists>e \<in> set pre. names_dir d e \<and> fileName_of d e = ?n"
  proof -
    from that have in_dirs: "?n \<in> dirs ?st"
      unfolding seen by (auto intro: rev_image_eqI)
    with pseudo have "fill d ?w1 ?st so = ?st" by (intro fill_seen_pseudo)
    then have "foldl (fill d ?w1) listing_init (pre @ so # post)
             = foldl (fill d ?w1) listing_init (pre @ post)" by simp
    then have "fillCache d ?w1 (pre @ so # post) = fillCache d ?w1 (pre @ post)"
      by (simp add: fillCache_def)
    with run in_dirs decided show ?thesis by auto
  qed
  have second: "fst (classify d ?w1 (dirs ?st) so) \<noteq> Skip
      \<and> (\<exists>ents. fst (ReadDirAll d w) = Inr ents
            \<and> count_list ents ?D =
                1 + length (filter (\<lambda>e. \<not> isSymlink e (d_path d)
                          \<and> isDirectory e (d_path d) \<and> fileName_of d e = ?n) post))"
    if unseen: "\<forall>e \<in> set pre. names_dir d e \<longrightarrow> fileName_of d e \<noteq> ?n"
  proof -
    from unseen have out: "?n \<notin> dirs ?st" unfolding seen by auto
    let ?st1 = "fill d ?w1 ?st so"
    have c0: "count_list (direntries ?st @ map Export (tasks ?st)) ?D = 0"
      using foldl_fill_count_unseen [OF unseen, of ?w1 listing_init]
      by (simp add: listing_init_def)
    have c1: "count_list (direntries ?st1 @ map Export (tasks ?st1)) ?D = 1"
      unfolding fill_count using c0 pseudo out by simp
    have "names_dir d so" using pseudo by (simp add: names_dir_def)
    then have in1: "?n \<in> dirs ?st1" by (simp add: fill_dirs classify_dirs)
    have "foldl (fill d ?w1) listing_init (pre @ so # post) = foldl (fill d ?w1) ?st1 post"
      by simp
    with foldl_fill_count_seen [OF in1, of d ?w1 post] c1
    have "count_list (direntries (foldl (fill d ?w1) listing_init (pre @ so # post))
                      @ map Export (tasks (foldl (fill d ?w1) listing_init (pre @ so # post))))
            ?D
          = 1 + length (filter (\<lambda>e. \<not> isSymlink e (d_path d)
                          \<and> isDirectory e (d_path d) \<and> fileName_of d e = ?n) post)"
      by simp
    with run out decided show ?thesis
      by (simp add: fillCache_direntries)
  qed
  show ?thesis
    unfolding Let_def using first second by blast
qed

theorem C5_pseudo_directory_first_seen_witness:
  "listed ex_world5_marker_first 0 = [ex_marker] @ ex_pseudo # []
   \<and> names_dir ex_root ex_marker
   \<and> ReadDirAll ex_root ex_world5_marker_first =
       fillCache ex_root
         (ex_world5_marker_first\<lparr>trace := [ObjectsAll ''data'' (Some CHR ''/'') []]\<rparr>)
         [ex_marker]
   \<and> fst (ReadDirAll ex_root ex_world5_marker_first) = Inr [\<lparr>de_Name = ''a'', de_Type = DT_Dir\<rparr>]
   \<and> listed ex_world5 0 = [] @ ex_pseudo # [ex_marker]
   \<and> count_list (projr (fst (ReadDirAll ex_root ex_world5))) \<lparr>de_Name = ''a'', de_Type = DT_Dir\<rparr>
       = 2"
  using C5_pseudo_directory_first_seen [of ex_world5_marker_first ex_root "[ex_marker]"
          ex_pseudo "[]"]
        C5_pseudo_directory_first_seen [of ex_world5 ex_root "[]" ex_pseudo "[ex_marker]"]
  by (simp add: ex_defs string_defs isPseudoDirectory_def isDirectory_def isSymlink_def
      names_dir_def fileName_of_def ReadDirAll_def fillCache_def Cache_GetAll_def perform_eq
      Let_def fill_def classify_def finish_def listing_init_def isLargeObject_def
      SimpleCache_Get_def)

text \<open>In the children that \<open>ReadDirAll\<close> installs in the cache one name holds one node:
  at the listing above the node cached under \<open>a\<close> is the directory of the marker, which
  came second, not the pseudo-directory.\<close>

lemma ex_later_marker_is_cached:
  "Cache_Get (DirectoryCache (snd (ReadDirAll ex_root ex_world5))) ''data'' [] ''a'' =
     Some (Directory \<lparr>d_apex = False, d_name = ''a'', d_path = ''a/'',
             d_so = Some ex_marker, d_sh = [], d_c = ''data'', d_cs = ''segments''\<rparr>)"
  by (simp add: ex_defs string_defs cache_defs isPseudoDirectory_def isDirectory_def
      isSymlink_def fileName_of_def ReadDirAll_def fillCache_def perform_eq Let_def
      fill_def classify_def finish_def listing_init_def isLargeObject_def)

section \<open>Write\<close>

lemma newWriter_eq:
  "newWriter c p nonce w =
     (if fails w (length (trace w)) then Inl (Backend (ObjectCreate c p ObjContentType []))
      else Inr (\<lparr>w_container = c, w_path = p, w_closed = False\<rparr>,
                if Encryption w then nonces w (length (trace w)) else nonce),
      w\<lparr>trace := trace w @ [ObjectCreate c p ObjContentType []]\<rparr>)"
  by (simp add: newWriter_def perform_eq Let_def)

text \<open>What a successful \<open>truncate\<close> leaves alone: the state but for the trace, and the
  fields of the handle and of its target that segmenting reads.\<close>

lemma truncate_frame:
  assumes "truncate fh w = (None, fh1, w1)"
  shows "(\<exists>pre. w1 = w\<lparr>trace := trace w @ pre\<rparr>)
       \<and> o_path (fh_target fh1) = o_path (fh_target fh)
       \<and> o_c (fh_target fh1) = o_c (fh_target fh)
       \<and> o_cs (fh_target fh1) = o_cs (fh_target fh)
       \<and> fh_segmentID fh1 = fh_segmentID fh
       \<and> fh_uploaded fh1 = fh_uploaded fh
       \<and> fh_wroteSegment fh1 = fh_wroteSegment fh
       \<and> (\<exists>wr. fh_wd fh1 = Some wr)"
proof (cases "o_segmented (fh_target fh)")
  case False
  with assms show ?thesis
    by (auto simp: truncate_def newWriter_eq Let_def split: if_splits)
next
  case True
  let ?t = "fh_target fh"
  obtain r w0 where ds: "deleteSegments (o_cs ?t) (hget (o_sh ?t) ManifestHeader) w = (r, w0)"
    by (cases "deleteSegments (o_cs ?t) (hget (o_sh ?t) ManifestHeader) w") auto
  from deleteSegments_trace [of "o_cs ?t" "hget (o_sh ?t) ManifestHeader" w] ds
  obtain pre where w0: "w0 = w\<lparr>trace := trace w @ pre\<rparr>" by auto
  from assms True ds have r: "r = None"
    by (cases r) (auto simp: truncate_def Let_def)
  from assms True ds r w0 show ?thesis
    by (auto simp: truncate_def newWriter_eq Let_def split: if_splits)
qed

text \<open>What a successful \<open>truncate\<close> does: the segmented flag is clear and the manifest
  header gone, the reported size is 0, the handle is marked truncated, and the fresh
  writer is open on the name of the target's store object.\<close>

lemma truncate_effects:
  assumes "truncate fh w = (None, fh1, w1)"
  shows "\<not> o_segmented (fh_target fh1)
       \<and> (o_segmented (fh_target fh) \<longrightarrow> map_of (o_sh (fh_target fh1)) ManifestHeader = None)
       \<and> so_Bytes (o_so (fh_target fh1)) = 0
       \<and> fh_truncated fh1
       \<and> fh_wd fh1 = Some \<lparr>w_container = o_c (fh_target fh),
                             w_path = so_Name (o_so (fh_target fh)), w_closed = False\<rparr>"
proof (cases "o_segmented (fh_target fh)")
  case False
  with assms show ?thesis
    by (auto simp: truncate_def newWriter_eq Let_def split: if_splits)
next
  case True
  let ?t = "fh_target fh"
  obtain r w0 where ds: "deleteSegments (o_cs ?t) (hget (o_sh ?t) ManifestHeader) w = (r, w0)"
    by (cases "deleteSegments (o_cs ?t) (hget (o_sh ?t) ManifestHeader) w") auto
  from assms True ds have r: "r = None"
    by (cases r) (auto simp: truncate_def Let_def)
  from assms True ds r show ?thesis
    by (auto simp: truncate_def newWriter_eq Let_def delete_conv split: if_splits)
qed

text \<open>Claim C1. For every \<open>Write(data)\<close> that returns success on a handle that has
  written no segment yet, where the bytes uploaded so far plus \<open>len(data)\<close> exceed the
  segment size (the sum within \<^verbatim>\<open>uint64\<close>): after the requests \<open>pre\<close> of a truncation, if
  one was due, the handle closes the current writer \<open>wr\<close>, takes
  \<open>segmentPrefix = target.path + "/" + now\<close>, moves the object at \<open>target.path\<close> of the
  data container to \<open>segmentPath(segmentPrefix, segmentID)\<close> of the segments container,
  creates the manifest at \<open>target.path\<close> with the header
  \<open>X-Object-Manifest = segmentsContainer + "/" + segmentPrefix\<close>, marks the object
  segmented, closes the writer once more, and opens the segment with the next id, into
  which it writes the data.\<close>

theorem C1_Write_first_segment:
  assumes ok: "Write fh Data w = (Inr n, fh', w')"
      and big: "SegmentSize w < fh_uploaded fh + length Data"
      and nowrap: "fh_uploaded fh + length Data < 2 ^ 64"
      and first: "\<not> fh_wroteSegment fh"
  shows "\<exists>pre wr.
      (fh_create fh \<or> fh_truncated fh \<longrightarrow> pre = [] \<and> fh_wd fh = Some wr) \<and>
      (let t = fh_target fh;
           prefix = o_path t @ ''/'' @ itoa (now w);
           seg0 = segmentPath prefix (fh_segmentID fh);
           seg1 = segmentPath prefix (fh_segmentID fh + 1)
       in trace w' = trace w @ pre @
            [WriterClose (w_container wr) (w_path wr),
             ObjectMove (o_c t) (o_path t) (o_cs t) seg0,
             ObjectCreate (o_c t) (o_path t) [] [(ManifestHeader, o_cs t @ ''/'' @ prefix)],
             WriterClose (w_container wr) (w_path wr),
             ObjectCreate (o_cs t) seg1 ObjContentType [],
             WriterWrite (o_cs t) seg1 Data]
        \<and> fh_segmentPrefix fh' = prefix \<and> fh_segmentPath fh' = seg0
        \<and> fh_wroteSegment fh' \<and> o_segmented (fh_target fh')
        \<and> fh_segmentID fh' = fh_segmentID fh + 1
        \<and> fh_wd fh' = Some \<lparr>w_container = o_cs t, w_path = seg1, w_closed = False\<rparr>
        \<and> n = length Data)"
proof -
  let ?fh0 = "fh\<lparr>fh_target := (fh_target fh)\<lparr>o_writing := True\<rparr>\<rparr>"
  obtain r fh1 w1 where pre:
    "(if \<not> fh_create ?fh0 \<and> \<not> fh_truncated ?fh0 then truncate ?fh0 w else (None, ?fh0, w))
       = (r, fh1, w1)"
    by (metis prod_cases3)
  from ok pre have r: "r = None"
    by (cases r) (auto simp: Write_def Let_def)
  have frame: "(\<exists>pre. w1 = w\<lparr>trace := trace w @ pre\<rparr>)
       \<and> o_path (fh_target fh1) = o_path (fh_target fh)
       \<and> o_c (fh_target fh1) = o_c (fh_target fh)
       \<and> o_cs (fh_target fh1) = o_cs (fh_target fh)
       \<and> fh_segmentID fh1 = fh_segmentID fh
       \<and> fh_uploaded fh1 = fh_uploaded fh
       \<and> fh_wroteSegment fh1 = fh_wroteSegment fh
       \<and> (\<exists>wr. fh_wd fh1 = Some wr)"
  proof (cases "\<not> fh_create fh \<and> \<not> fh_truncated fh")
    case True
    with pre r have "truncate ?fh0 w = (None, fh1, w1)" by simp
    from truncate_frame [OF this] show ?thesis by simp
  next
    case False
    with pre have e: "fh1 = ?fh0" "w1 = w" by auto
    have "fh_wd fh \<noteq> None"
    proof
      assume "fh_wd fh = None"
      with ok False big nowrap first show False
        by (auto simp: Write_def Let_def moveToSegment_def)
    qed
    moreover have "\<exists>pre. w = w\<lparr>trace := trace w @ pre\<rparr>"
      by (rule exI [of _ "[]"]) simp
    ultimately show ?thesis using e by auto
  qed
  then obtain pr wr where w1: "w1 = w\<lparr>trace := trace w @ pr\<rparr>" and wr: "fh_wd fh1 = Some wr"
    by blast
  have same: "pr = [] \<and> fh_wd fh = Some wr" if "fh_create fh \<or> fh_truncated fh"
  proof -
    from that pre have e: "fh1 = ?fh0" "w1 = w" by auto
    with w1 have "trace w = trace (w\<lparr>trace := trace w @ pr\<rparr>)" by simp
    then have "pr = []" by simp
    with e wr show ?thesis by simp
  qed
  have run: "Write fh Data w =
      (case (if \<not> fh_wroteSegment fh1 then moveToSegment fh1 w1 else (None, fh1, w1)) of
         (Some e, fh2, w2) \<Rightarrow> (Inl e, fh2, w2)
       | (None, fh2, w2) \<Rightarrow>
           (case fh_wd fh2 of
              None \<Rightarrow> (Inl Panic, fh2, w2)
            | Some wr \<Rightarrow>
                (let (wr', w3) = Writer_Close wr w2 in
                 case initSegment (o_cs (fh_target fh2)) (fh_segmentPrefix fh2)
                        (fh_segmentID fh2) Data (fh_uploaded fh2) (fh_nonce fh2) w3 of
                   (Inl e, sid, up, nonce', w4) \<Rightarrow>
                     (Inl e, fh2\<lparr>fh_wd := None, fh_segmentID := sid, fh_uploaded := up,
                          fh_nonce := nonce'\<rparr>, w4)
                 | (Inr seg, sid, up, nonce', w4) \<Rightarrow>
                     (Inr (length Data),
                      fh2\<lparr>fh_wd := Some seg, fh_segmentID := sid, fh_uploaded := up,
                          fh_nonce := nonce'\<rparr>, w4))))"
    using pre r frame big nowrap w1
    by (simp add: Write_def Let_def del: One_nat_def)
  show ?thesis
    apply (rule exI [of _ pr], rule exI [of _ wr])
    using ok first frame wr w1 same unfolding run
    by (auto simp: Let_def moveToSegment_def Writer_Close_def perform_eq createManifest_def
        initSegment_def newWriter_eq Writer_Write_def split: if_splits)
qed

lemma digits_Suc_0: "digits (Suc 0) = ''1''"
  by code_simp

lemma ex_Write:
  "Write (ex_handle (ex_file ''f'' ''f'' True) (Some ex_writer) True 5) ''BBBBB''
     (ex_world (\<lambda>k. False)) =
     (Inr 5,
      (ex_handle (ex_file ''f'' ''f'' True) (Some ex_writer) True 5)
        \<lparr>fh_target := (ex_file ''f'' ''f'' True)\<lparr>o_segmented := True\<rparr>,
         fh_wd := Some \<lparr>w_container = ''segments'', w_path = ''f/42/1'', w_closed = False\<rparr>,
         fh_wroteSegment := True, fh_segmentID := 1, fh_uploaded := 5,
         fh_segmentPrefix := ''f/42'', fh_segmentPath := ''f/42/0''\<rparr>,
      (ex_world (\<lambda>k. False))
        \<lparr>trace := [WriterClose ''data'' ''f'',
                   ObjectMove ''data'' ''f'' ''segments'' ''f/42/0'',
                   ObjectCreate ''data'' ''f'' [] [(ManifestHeader, ''segments/f/42'')],
                   WriterClose ''data'' ''f'',
                   ObjectCreate ''segments'' ''f/42/1'' ObjContentType [],
                   WriterWrite ''segments'' ''f/42/1'' ''BBBBB'']\<rparr>)"
  by (simp add: ex_defs Write_def moveToSegment_def Writer_Close_def perform_eq
      createManifest_def initSegment_def newWriter_eq Writer_Write_def segmentPath_def
      itoa_42 digits_0 digits_Suc_0 Let_def)

theorem C1_Write_first_segment_witness:
  "fst (Write (ex_handle (ex_file ''f'' ''f'' True) (Some ex_writer) True 5) ''BBBBB''
          (ex_world (\<lambda>k. False))) = Inr 5
   \<and> SegmentSize (ex_world (\<lambda>k. False)) < 5 + length ''BBBBB''
   \<and> trace (snd (snd (Write (ex_handle (ex_file ''f'' ''f'' True) (Some ex_writer) True 5)
          ''BBBBB'' (ex_world (\<lambda>k. False))))) =
       [WriterClose ''data'' ''f'',
        ObjectMove ''data'' ''f'' ''segments'' ''f/42/0'',
        ObjectCreate ''data'' ''f'' [] [(ManifestHeader, ''segments/f/42'')],
        WriterClose ''data'' ''f'',
        ObjectCreate ''segments'' ''f/42/1'' ObjContentType [],
        WriterWrite ''segments'' ''f/42/1'' ''BBBBB'']"
  using C1_Write_first_segment [OF ex_Write] ex_Write
  by (simp add: ex_defs)

text \<open>Claim C2 fails on an object that was renamed. \<open>moveObject\<close> gives the object its
  new name and path and leaves the name of its store object as it was; \<open>truncate\<close> opens
  the fresh writer on that name (\<^verbatim>\<open>fh.target.so.Name\<close>), where \<^verbatim>\<open>open\<close> uses
  \<^verbatim>\<open>target.path\<close>. Here \<open>a\<close> is renamed to \<open>b\<close> and looked up again; the first Write
  through a handle on it, opened for an existing object, truncates, and the writer it
  opens and writes to is at \<open>a\<close>, not at the target path \<open>b\<close>.\<close>

theorem C2_truncate_opens_writer_at_old_name:
  "Rename ex_root ''a'' ''b'' (Directory ex_root) ex_world2 = (None, ex_world2_renamed)
   \<and> Lookup ex_root ''b'' ex_world2_renamed = (Inr (Object ex_renamed), ex_world2_renamed)
   \<and> o_path ex_renamed = ''b''
   \<and> fst (Write (ex_handle ex_renamed None False 0) ''x'' ex_world2_renamed) = Inr 1
   \<and> fh_truncated (fst (snd (Write (ex_handle ex_renamed None False 0) ''x'' ex_world2_renamed)))
   \<and> fh_wd (fst (snd (Write (ex_handle ex_renamed None False 0) ''x'' ex_world2_renamed)))
       = Some \<lparr>w_container = ''data'', w_path = ''a'', w_closed = False\<rparr>
   \<and> trace (snd (snd (Write (ex_handle ex_renamed None False 0) ''x'' ex_world2_renamed)))
       = [ObjectMove ''data'' ''a'' ''data'' ''b'',
          ObjectCreate ''data'' ''a'' ObjContentType [],
          WriterWrite ''data'' ''a'' ''x'']"
  by (simp add: ex_defs cache_defs Rename_def move_def moveObject_def Lookup_def Write_def
      truncate_def newWriter_eq Writer_Write_def perform_eq Let_def)

section \<open>Release\<close>

text \<open>When encryption is off or the store accepts the header update, \<open>Release\<close> of a
  handle with a writer, whose target is registered in the change cache and locked,
  returns success with the writer closed, the writing flag clear, the registration
  removed and the mutex unlocked; with encryption on, the update of the size and nonce
  headers is the request that follows the close of the writer.\<close>

lemma Release_clears_target:
  assumes wd: "fh_wd fh = Some wr"
      and upd: "Encryption w \<longrightarrow> \<not> fails w (Suc (length (trace w)))"
      and reg: "SimpleCache_Exist (ChangeCache w) (o_c (fh_target fh)) (o_path (fh_target fh))"
      and held: "o_locked (fh_target fh)"
  shows "\<exists>fh' w'. Release fh w = (None, fh', w')
       \<and> fh_wd fh' = Some (wr\<lparr>w_closed := True\<rparr>)
       \<and> \<not> o_writing (fh_target fh') \<and> \<not> o_locked (fh_target fh')
       \<and> \<not> SimpleCache_Exist (ChangeCache w') (o_c (fh_target fh)) (o_path (fh_target fh))
       \<and> trace w' = trace w @ WriterClose (w_container wr) (w_path wr) #
           (if Encryption w
            then [ObjectUpdate (o_c (fh_target fh)) (o_path (fh_target fh))
                    [(ObjectSizeHeader, itoa (so_Bytes (o_so (fh_target fh)))),
                     (ObjectNonceHeader, fh_nonce fh)]]
            else [])"
  using assms
  by (cases "fh_rd fh")
     (auto simp: Release_def Writer_Close_def perform_eq updateHeaders_def unregister_def
        SimpleCache_Exist_def SimpleCache_Remove_def Let_def)

text \<open>Claim C3 fails when encryption is on and the store rejects the header update:
  \<open>Release\<close> returns that error at once, after closing the writer, and the target keeps
  its writing flag, its registration in the change cache and its locked mutex.\<close>

theorem C3_Release_returns_early_on_header_error:
  "Encryption ex_world3
   \<and> fst (Release (ex_handle (ex_file ''f'' ''f'' True) (Some ex_writer) True 5) ex_world3)
       = Some (Backend (ObjectUpdate ''data'' ''f''
           [(ObjectSizeHeader, ''0''), (ObjectNonceHeader, ''n0'')]))
   \<and> o_writing (fh_target (fst (snd
        (Release (ex_handle (ex_file ''f'' ''f'' True) (Some ex_writer) True 5) ex_world3))))
   \<and> o_locked (fh_target (fst (snd
        (Release (ex_handle (ex_file ''f'' ''f'' True) (Some ex_writer) True 5) ex_world3))))
   \<and> SimpleCache_Exist (ChangeCache (snd (snd
        (Release (ex_handle (ex_file ''f'' ''f'' True) (Some ex_writer) True 5) ex_world3))))
        ''data'' ''f''"
  by (simp add: ex_defs cache_defs Release_def Writer_Close_def perform_eq updateHeaders_def
      unregister_def itoa_0 Let_def)

section \<open>Read\<close>

text \<open>Claim C7, as stated, fails at the end of the object: of the object \<open>abc\<close> a
  \<open>Read(1, 5)\<close> that the store serves reads the two bytes \<open>bc\<close>; the response is not
  these bytes, shorter than the size asked for, but five bytes, the last three of them
  zero bytes that were not read from the object.\<close>

theorem C7_Read_pads_past_end:
  "body ex_world7 0 = ''abc''
   \<and> take 5 (drop 1 (body ex_world7 0)) = ''bc''
   \<and> fst (Read (ex_handle (ex_file ''f'' ''f'' False) None False 0) 1 5 ex_world7)
       = Inr [CHR ''b'', CHR ''c'', CHR 0x00, CHR 0x00, CHR 0x00]
   \<and> fst (Read (ex_handle (ex_file ''f'' ''f'' False) None False 0) 1 5 ex_world7)
       \<noteq> Inr (take 5 (drop 1 (body ex_world7 0)))"
  by (simp add: ex_defs Read_def newReader_def perform_eq request_def Seek_def ReadFull_def
      Let_def numeral_3_eq_3)

text \<open>Claim C7, amended. For every \<open>Read(offset, size)\<close> on a handle whose reader exists
  or opens without error: the reader is built on this call exactly when the handle has
  none yet (one open request, none otherwise) and is kept in the handle; it is positioned
  at \<open>offset\<close> and one read of \<open>size\<close> bytes is requested there; \<open>Read\<close> returns success
  whether or not that read fails. The response is always exactly \<open>size\<close> bytes long: it
  starts with the bytes read and is zero behind them, so it is never shorter than
  \<open>size\<close>. When the store serves the read, the bytes read are the bytes of the object
  from \<open>offset\<close> on, at most \<open>size\<close> of them, and fewer than \<open>size\<close> only when the object
  ends there; when the read fails, they are those of these bytes that arrived before the
  failure.\<close>

theorem C7_Read:
  assumes "fh_rd fh = None \<longrightarrow> \<not> fails w (length (trace w))"
  shows "let r = (case fh_rd fh of
                    Some r \<Rightarrow> r
                  | None \<Rightarrow> \<lparr>r_container = o_c (fh_target fh), r_path = o_path (fh_target fh),
                              r_data = body w (length (trace w)), r_pos = 0,
                              r_closed = False\<rparr>);
             w1 = (if fh_rd fh = None
                   then w\<lparr>trace := trace w @
                           [ObjectOpen (o_c (fh_target fh)) (o_path (fh_target fh))]\<rparr>
                   else w);
             k = length (trace w1);
             avail = take Size (drop Offset (r_data r));
             got = (if fails w k then take (arrived w k) avail else avail);
             resp = got @ replicate (Size - length got) (CHR 0x00)
         in Read fh Offset Size w =
              (Inr resp,
               fh\<lparr>fh_rd := Some (r\<lparr>r_pos := Offset + length got\<rparr>)\<rparr>,
               w1\<lparr>trace := trace w1 @
                     [ReaderRead (r_container r) (r_path r) Offset Size]\<rparr>)
          \<and> length resp = Size
          \<and> take (length got) resp = got
          \<and> (\<not> fails w k \<longrightarrow>
                got = take Size (drop Offset (r_data r))
                \<and> (length got < Size \<longrightarrow> length (r_data r) \<le> Offset + length got))"
  using assms
  by (cases "fh_rd fh")
     (auto simp: Read_def newReader_def perform_eq request_def Seek_def ReadFull_def Let_def)

theorem C7_Read_witness:
  "fh_rd (ex_handle (ex_file ''f'' ''f'' False) None False 0) = None
   \<and> \<not> fails ex_world7 (length (trace ex_world7))
   \<and> Read (ex_handle (ex_file ''f'' ''f'' False) None False 0) 1 5 ex_world7 =
       (Inr [CHR ''b'', CHR ''c'', CHR 0x00, CHR 0x00, CHR 0x00],
        (ex_handle (ex_file ''f'' ''f'' False) None False 0)
          \<lparr>fh_rd := Some \<lparr>r_container = ''data'', r_path = ''f'', r_data = ''abc'',
                           r_pos = 3, r_closed = False\<rparr>\<rparr>,
        ex_world7\<lparr>trace := [ObjectOpen ''data'' ''f'', ReaderRead ''data'' ''f'' 1 5]\<rparr>)
   \<and> Read (ex_handle (ex_file ''f'' ''f'' False) None False 0) 0 2 ex_world7 =
       (Inr ''ab'',
        (ex_handle (ex_file ''f'' ''f'' False) None False 0)
          \<lparr>fh_rd := Some \<lparr>r_container = ''data'', r_path = ''f'', r_data = ''abc'',
                           r_pos = 2, r_closed = False\<rparr>\<rparr>,
        ex_world7\<lparr>trace := [ObjectOpen ''data'' ''f'', ReaderRead ''data'' ''f'' 0 2]\<rparr>)
   \<and> fails ex_world7_cut 1
   \<and> fst (Read (ex_handle (ex_file ''f'' ''f'' False) None False 0) 0 3 ex_world7_cut) =
       Inr [CHR ''a'', CHR 0x00, CHR 0x00]"
  using C7_Read [of "ex_handle (ex_file ''f'' ''f'' False) None False 0" ex_world7 5 1]
        C7_Read [of "ex_handle (ex_file ''f'' ''f'' False) None False 0" ex_world7 2 0]
        C7_Read [of "ex_handle (ex_file ''f'' ''f'' False) None False 0" ex_world7_cut 3 0]
  by (simp add: ex_defs Let_def numeral_3_eq_3 numeral_2_eq_2)

end
